theory Spec2Isabelle
  imports Complex_Main
begin

section \<open>Strings\<close>

text \<open>
  A Python \<open>str\<close> is held as a \<open>string\<close>. A code point outside ASCII is held as its
  UTF-8 bytes. The three characters the marker pattern tests, \<open>[\<close>, \<open>:\<close> and \<open>]\<close>, are
  ASCII and no byte of a longer UTF-8 sequence equals one of them, so the pattern splits
  the bytes exactly where it splits the code points.
\<close>

definition rsquo :: string where
  \<comment> \<open>U+2019 RIGHT SINGLE QUOTATION MARK, as the lookup tables of the source spell it\<close>
  "rsquo = [CHR 0xE2, CHR 0x80, CHR 0x99]"

definition squote :: string where
  \<comment> \<open>U+0027 APOSTROPHE\<close>
  "squote = [CHR 0x27]"

section \<open>The annotation formatter\<close>

subsection \<open>\<open>HOVER_PATTERN\<close>\<close>

text \<open>
  \<^verbatim>\<open>HOVER_PATTERN = re.compile(r'\[([^:]+):([^\]]+)\]')\<close>

  The matcher is the backtracking one of \<open>re\<close>, in continuation style: a piece of the
  pattern takes the input left and the continuation that matches the rest of the pattern.
  A greedy repetition first tries to take one more character and falls back to the
  continuation at the current position when that fails.
\<close>

definition lit :: "char \<Rightarrow> (string \<Rightarrow> 'a option) \<Rightarrow> string \<Rightarrow> 'a option" where
  "lit c k s = (case s of [] \<Rightarrow> None | x # xs \<Rightarrow> if x = c then k xs else None)"

fun star_greedy ::
  "(char \<Rightarrow> bool) \<Rightarrow> (string \<Rightarrow> string \<Rightarrow> 'a option) \<Rightarrow> string \<Rightarrow> string \<Rightarrow> 'a option" where
  "star_greedy P k seen [] = k seen []"
| "star_greedy P k seen (x # xs) =
     (if P x then
        (case star_greedy P k (seen @ [x]) xs of
           Some r \<Rightarrow> Some r
         | None \<Rightarrow> k seen (x # xs))
      else k seen (x # xs))"

definition plus_greedy ::
  "(char \<Rightarrow> bool) \<Rightarrow> (string \<Rightarrow> string \<Rightarrow> 'a option) \<Rightarrow> string \<Rightarrow> 'a option" where
  "plus_greedy P k s =
     (case s of [] \<Rightarrow> None | x # xs \<Rightarrow> if P x then star_greedy P k [x] xs else None)"

definition HOVER_PATTERN :: "string \<Rightarrow> (string \<times> string \<times> string) option" where
  \<comment> \<open>\<open>HOVER_PATTERN.match\<close> at the start of the input: group 1, group 2, the input left\<close>
  "HOVER_PATTERN =
     lit CHR ''[''
       (plus_greedy (\<lambda>c. c \<noteq> CHR '':'') (\<lambda>label.
          lit CHR '':''
            (plus_greedy (\<lambda>c. c \<noteq> CHR '']'') (\<lambda>tooltip.
               lit CHR '']'' (\<lambda>rest. Some (label, tooltip, rest))))))"

text \<open>
  A greedy run of characters other than \<open>d\<close>, followed by the literal \<open>d\<close>, has one way
  to match: the whole run up to the first \<open>d\<close>.
\<close>

lemma star_greedy_until:
  "star_greedy (\<lambda>c. c \<noteq> d) (\<lambda>g. lit d (k g)) seen s =
     lit d (k (seen @ takeWhile (\<lambda>c. c \<noteq> d) s)) (dropWhile (\<lambda>c. c \<noteq> d) s)"
proof (induction s arbitrary: seen)
  case Nil
  show ?case by simp
next
  case (Cons x xs)
  show ?case
  proof (cases "x = d")
    case True
    then show ?thesis by simp
  next
    case False
    have stay: "lit d (k seen) (x # xs) = None"
      using False by (simp add: lit_def)
    show ?thesis
      using False stay Cons.IH [of "seen @ [x]"]
      by (simp split: option.split)
  qed
qed

lemma plus_greedy_until:
  "plus_greedy (\<lambda>c. c \<noteq> d) (\<lambda>g. lit d (k g)) s =
     (if takeWhile (\<lambda>c. c \<noteq> d) s = [] then None
      else lit d (k (takeWhile (\<lambda>c. c \<noteq> d) s)) (dropWhile (\<lambda>c. c \<noteq> d) s))"
  by (cases s) (simp_all add: plus_greedy_def star_greedy_until)


lemma tooltip_group_until:
  "plus_greedy (\<lambda>c. c \<noteq> CHR '']'') (\<lambda>tooltip. lit CHR '']'' (\<lambda>rest. Some (label, tooltip, rest))) s2 =
     (if takeWhile (\<lambda>c. c \<noteq> CHR '']'') s2 = [] then None
      else lit CHR '']'' (\<lambda>rest. Some (label, takeWhile (\<lambda>c. c \<noteq> CHR '']'') s2, rest)) (dropWhile (\<lambda>c. c \<noteq> CHR '']'') s2))"
  by (rule plus_greedy_until [of "CHR '']''" "\<lambda>tooltip rest. Some (label, tooltip, rest)" s2])

lemma label_group_until:
  "plus_greedy (\<lambda>c. c \<noteq> CHR '':'') (\<lambda>label. lit CHR '':'' (k label)) s1 =
     (if takeWhile (\<lambda>c. c \<noteq> CHR '':'') s1 = [] then None
      else lit CHR '':'' (k (takeWhile (\<lambda>c. c \<noteq> CHR '':'') s1)) (dropWhile (\<lambda>c. c \<noteq> CHR '':'') s1))"
  by (rule plus_greedy_until)

lemma lit_dropWhile:
  "lit d k (dropWhile (\<lambda>c. c \<noteq> d) s) = (case dropWhile (\<lambda>c. c \<noteq> d) s of [] \<Rightarrow> None | _ # r \<Rightarrow> k r)"
proof (cases "dropWhile (\<lambda>c. c \<noteq> d) s")
  case Nil show ?thesis unfolding lit_def Nil by simp
next
  case (Cons x r)
  then have "x = d" using hd_dropWhile [of "\<lambda>c. c \<noteq> d" s] by auto
  show ?thesis unfolding lit_def Cons using \<open>x = d\<close> by simp
qed

lemma HOVER_PATTERN_unfold:
  "HOVER_PATTERN s =
     (case s of
        [] \<Rightarrow> None
      | b # s1 \<Rightarrow>
          if b \<noteq> CHR ''['' \<or> takeWhile (\<lambda>c. c \<noteq> CHR '':'') s1 = [] then None
          else
            (case dropWhile (\<lambda>c. c \<noteq> CHR '':'') s1 of
               [] \<Rightarrow> None
             | _ # s2 \<Rightarrow>
                 if takeWhile (\<lambda>c. c \<noteq> CHR '']'') s2 = [] then None
                 else
                   (case dropWhile (\<lambda>c. c \<noteq> CHR '']'') s2 of
                      [] \<Rightarrow> None
                    | _ # rest \<Rightarrow>
                        Some (takeWhile (\<lambda>c. c \<noteq> CHR '':'') s1,
                              takeWhile (\<lambda>c. c \<noteq> CHR '']'') s2, rest))))"
proof (cases s)
  case Nil
  then show ?thesis by (simp add: HOVER_PATTERN_def lit_def)
next
  case (Cons b s1)
  show ?thesis
  proof (cases "b = CHR ''[''")
    case False
    with Cons show ?thesis by (simp add: HOVER_PATTERN_def lit_def)
  next
    case True
    have "HOVER_PATTERN s = plus_greedy (\<lambda>c. c \<noteq> CHR '':'') (\<lambda>label.
          lit CHR '':''
            (plus_greedy (\<lambda>c. c \<noteq> CHR '']'') (\<lambda>tooltip.
               lit CHR '']'' (\<lambda>rest. Some (label, tooltip, rest))))) s1"
      using Cons True by (simp add: HOVER_PATTERN_def lit_def)
    also have "\<dots> = (if takeWhile (\<lambda>c. c \<noteq> CHR '':'') s1 = [] then None
      else lit CHR '':'' (plus_greedy (\<lambda>c. c \<noteq> CHR '']'') (\<lambda>tooltip.
               lit CHR '']'' (\<lambda>rest. Some (takeWhile (\<lambda>c. c \<noteq> CHR '':'') s1, tooltip, rest))))
            (dropWhile (\<lambda>c. c \<noteq> CHR '':'') s1))"
      by (rule label_group_until)
    finally show ?thesis
      using Cons True by (simp only: lit_dropWhile tooltip_group_until list.case if_False simp_thms cong: list.case_cong if_cong)
  qed
qed

lemma HOVER_PATTERN_consumes:
  assumes "HOVER_PATTERN s = Some (label, tooltip, rest)"
  shows "length rest < length s"
proof -
  have drop_le: "length (dropWhile P xs) \<le> length xs" for P and xs :: string
    by (rule length_dropWhile_le)
  from assms obtain b s1 x s2 y where
    s: "s = b # s1" and
    s1: "dropWhile (\<lambda>c. c \<noteq> CHR '':'') s1 = x # s2" and
    s2: "dropWhile (\<lambda>c. c \<noteq> CHR '']'') s2 = y # rest"
    unfolding HOVER_PATTERN_unfold [of s]
    by (auto split: list.splits if_splits)
  have "length rest < length s2"
    using drop_le [of "\<lambda>c. c \<noteq> CHR '']''" s2] s2 by simp
  moreover have "length s2 < length s1"
    using drop_le [of "\<lambda>c. c \<noteq> CHR '':''" s1] s1 by simp
  ultimately show ?thesis
    using s by simp
qed

subsection \<open>\<open>format_body_with_hovers\<close>\<close>

text \<open>
  \<^verbatim>\<open>
  def replacer(match):
      label = match.group(1)
      tooltip = match.group(2)
      return f'<span class="source-label">{label}<span class="source-tooltip">{tooltip}</span></span>'
  return HOVER_PATTERN.sub(replacer, text_body)
  \<close>

  \<open>sub\<close> replaces the leftmost non-overlapping matches: it tries the pattern at the current
  position, on a match emits the replacement and goes on after the match, and otherwise
  copies one character and tries at the next position. The pattern matches no empty
  string, so the rules of \<open>re\<close> for empty matches play no part.
\<close>

definition replacer :: "string \<Rightarrow> string \<Rightarrow> string" where
  \<open>replacer label tooltip =
     ''<span class="source-label">'' @ label @
     ''<span class="source-tooltip">'' @ tooltip @ ''</span></span>''\<close>

function HOVER_PATTERN_sub :: "string \<Rightarrow> string" where
  "HOVER_PATTERN_sub [] = []"
| "HOVER_PATTERN_sub (c # cs) =
     (case HOVER_PATTERN (c # cs) of
        Some (label, tooltip, rest) \<Rightarrow> replacer label tooltip @ HOVER_PATTERN_sub rest
      | None \<Rightarrow> c # HOVER_PATTERN_sub cs)"
  by pat_completeness auto
termination
proof (relation "measure length")
  show "wf (measure length)" by simp
next
  fix c cs x2 label y tooltip rest
  assume "HOVER_PATTERN (c # cs) = Some x2" and "(label, y) = x2" and "(tooltip, rest) = y"
  then have "HOVER_PATTERN (c # cs) = Some (label, tooltip, rest)" by simp
  from HOVER_PATTERN_consumes [OF this]
  show "(rest, c # cs) \<in> measure length" by simp
next
  fix c cs
  show "(cs, c # cs) \<in> measure length" by simp
qed

definition format_body_with_hovers :: "string \<Rightarrow> string" where
  "format_body_with_hovers text_body = HOVER_PATTERN_sub text_body"


section \<open>Python values\<close>

text \<open>
  The payload of a request, the parsed completion and the body of a response are JSON
  values as Python holds them: \<open>None\<close>, \<open>bool\<close>, \<open>int\<close>, \<open>float\<close>, \<open>str\<close>, \<open>list\<close> and
  \<open>dict\<close> (a \<open>dict\<close> as its items in insertion order). A float is held by its value.
\<close>

datatype json =
    JNull
  | JBool bool
  | JInt int
  | JFloat real
  | JStr string
  | JArr "json list"
  | JObj "(string \<times> json) list"

fun type_name :: "json \<Rightarrow> string" where
  "type_name JNull = ''NoneType''"
| "type_name (JBool b) = ''bool''"
| "type_name (JInt n) = ''int''"
| "type_name (JFloat x) = ''float''"
| "type_name (JStr s) = ''str''"
| "type_name (JArr xs) = ''list''"
| "type_name (JObj items) = ''dict''"

fun truthy :: "json \<Rightarrow> bool" where
  "truthy JNull = False"
| "truthy (JBool b) = b"
| "truthy (JInt n) = (n \<noteq> 0)"
| "truthy (JFloat x) = (x \<noteq> 0)"
| "truthy (JStr s) = (s \<noteq> [])"
| "truthy (JArr xs) = (xs \<noteq> [])"
| "truthy (JObj items) = (items \<noteq> [])"

text \<open>
  An exception is held by the \<open>except\<close> clause of the request handler that catches it,
  with \<open>str(e)\<close>: \<open>RateLimitError\<close> and \<open>APIConnectionError\<close> are subclasses of \<open>APIError\<close>
  and are caught before it; \<open>Exception\<close> stands for everything the last clause catches.
  The messages of the exceptions that the interpreter raises (\<open>AttributeError\<close>,
  \<open>TypeError\<close>, \<open>IndexError\<close>) are worded as CPython 3.12 words them; no statement below
  depends on the wording.
\<close>

datatype exn =
    RateLimitError string
  | APIConnectionError string
  | APIError string
  | EnvironmentError string
  | Exception string

fun bind_exn :: "exn + 'a \<Rightarrow> ('a \<Rightarrow> exn + 'b) \<Rightarrow> exn + 'b" where
  "bind_exn (Inl e) f = Inl e"
| "bind_exn (Inr x) f = f x"

definition dict_get :: "json \<Rightarrow> string \<Rightarrow> json \<Rightarrow> exn + json" where
  \<comment> \<open>\<open>data.get(key, default)\<close>: only a \<open>dict\<close> has the method\<close>
  "dict_get data key fallback =
     (case data of
        JObj items \<Rightarrow> Inr (case map_of items key of Some v \<Rightarrow> v | None \<Rightarrow> fallback)
      | _ \<Rightarrow>
          Inl (Exception (squote @ type_name data @ squote @
                 '' object has no attribute '' @ squote @ ''get'' @ squote)))"

section \<open>The profile mapper\<close>

text \<open>The lookup tables of \<open>map_responses\<close>, one for each key of \<open>mappings\<close>.\<close>

definition mappings_DEM1 :: "(string \<times> string) list" where
  \<open>mappings_DEM1 =
     [(''1'', ''Female''),
      (''2'', ''Male''),
      (''3'', ''Non-binary / third gender''),
      (''4'', ''Prefer not to say'')]\<close>

definition mappings_DEM3 :: "(string \<times> string) list" where
  \<open>mappings_DEM3 =
     [(''1'', ''8th grade or less''),
      (''2'', ''Some high school, no diploma''),
      (''3'', ''High school graduate or GED''),
      (''4'', ''Some college, no degree''),
      (''5'', ''Associate'' @ rsquo @ ''s degree''),
      (''6'', ''Bachelor'' @ rsquo @ ''s degree''),
      (''7'', ''Graduate or professional degree'')]\<close>

definition mappings_DEM4 :: "(string \<times> string) list" where
  \<open>mappings_DEM4 =
     [(''1'', ''Under $10,000''),
      (''2'', ''$10,000 to $14,999''),
      (''3'', ''$15,000 to $24,999''),
      (''4'', ''$25,000 to $34,999''),
      (''5'', ''$35,000 to $49,999''),
      (''6'', ''$50,000 to $74,999''),
      (''7'', ''$75,000 to $99,999''),
      (''8'', ''$100,000 to $124,999''),
      (''9'', ''$125,000 to $149,000''),
      (''10'', ''$150,000 to $199,999''),
      (''11'', ''$200,000 or more'')]\<close>

definition mappings_DEM5 :: "(string \<times> string) list" where
  \<open>mappings_DEM5 =
     [(''1'', ''Caucasian/White''),
      (''2'', ''African American/Black''),
      (''3'', ''Hispanic/Latino''),
      (''4'', ''Asian''),
      (''5'', ''American Indian/Alaskan Native''),
      (''6'', ''Native Hawaiian/Pacific Islander''),
      (''7'', ''Other'')]\<close>

definition mappings_DEM7 :: "(string \<times> string) list" where
  \<open>mappings_DEM7 =
     [(''1'', ''Very liberal''),
      (''2'', ''Liberal''),
      (''3'', ''Somewhat liberal''),
      (''4'', ''Moderate''),
      (''5'', ''Somewhat conservative''),
      (''6'', ''Conservative''),
      (''7'', ''Very conservative'')]\<close>

definition mappings_DEM8 :: "(string \<times> string) list" where
  \<open>mappings_DEM8 =
     [(''1'', ''Democrat''),
      (''2'', ''Republican''),
      (''3'', ''Independent'')]\<close>

definition mappings_VOT2 :: "(string \<times> string) list" where
  \<open>mappings_VOT2 =
     [(''1'', ''The Democratic candidate (Kamala Harris)''),
      (''2'', ''The Republican candidate (Donald Trump)''),
      (''3'', ''Another candidate'')]\<close>

definition mappings_CCP1_1 :: "(string \<times> string) list" where
  \<open>mappings_CCP1_1 =
     [(''1'', ''Strongly opposes U.S. withdrawal from Paris Agreement''),
      (''2'', ''Opposes U.S. withdrawal from Paris Agreement''),
      (''3'', ''Somewhat opposes U.S. withdrawal from Paris Agreement''),
      (''4'', ''Neutral on U.S. withdrawal from Paris Agreement''),
      (''5'', ''Somewhat supports U.S. withdrawal from Paris Agreement''),
      (''6'', ''Supports U.S. withdrawal from Paris Agreement''),
      (''7'', ''Strongly supports U.S. withdrawal from Paris Agreement'')]\<close>

definition table_get :: "(string \<times> string) list \<Rightarrow> json \<Rightarrow> string \<Rightarrow> exn + json" where
  \<comment> \<open>\<open>mappings[k].get(code, default)\<close>: a \<open>list\<close> or a \<open>dict\<close> cannot be hashed; a value
      of another type equals no key of a table, whose keys are strings\<close>
  "table_get table code fallback =
     (case code of
        JStr s \<Rightarrow> Inr (JStr (case map_of table s of Some label \<Rightarrow> label | None \<Rightarrow> fallback))
      | JArr xs \<Rightarrow> Inl (Exception (''unhashable type: '' @ squote @ ''list'' @ squote))
      | JObj items \<Rightarrow> Inl (Exception (''unhashable type: '' @ squote @ ''dict'' @ squote))
      | _ \<Rightarrow> Inr (JStr fallback))"

definition mapped :: "(string \<times> string) list \<Rightarrow> json \<Rightarrow> string \<Rightarrow> string \<Rightarrow> exn + json" where
  \<comment> \<open>\<open>mappings[k].get(data.get(k), default)\<close>\<close>
  "mapped table data key fallback =
     bind_exn (dict_get data key JNull) (\<lambda>code. table_get table code fallback)"

text \<open>
  \<^verbatim>\<open>
  profile = {
      "Gender": mappings['DEM1'].get(data.get('DEM1'), "Not specified"),
      "Age": data.get('DEM2', "Not specified"),
      ...
      "Paris Agreement Stance": mappings['CCP1_1'].get(data.get('CCP1_1'),
                                    "Neutral on U.S. withdrawal from Paris Agreement")
  }
  return profile
  \<close>
  The values are computed in the order of the display; the first exception ends it.
\<close>

definition map_responses :: "json \<Rightarrow> exn + (string \<times> json) list" where
  "map_responses data =
     bind_exn (mapped mappings_DEM1 data ''DEM1'' ''Not specified'') (\<lambda>gender.
     bind_exn (dict_get data ''DEM2'' (JStr ''Not specified'')) (\<lambda>age.
     bind_exn (mapped mappings_DEM3 data ''DEM3'' ''Not specified'') (\<lambda>education.
     bind_exn (mapped mappings_DEM4 data ''DEM4'' ''Not specified'') (\<lambda>income.
     bind_exn (mapped mappings_DEM5 data ''DEM5'' ''Not specified'') (\<lambda>race.
     bind_exn (mapped mappings_DEM7 data ''DEM7'' ''Not specified'') (\<lambda>stance.
     bind_exn (mapped mappings_DEM8 data ''DEM8'' ''Not specified'') (\<lambda>party.
     bind_exn (mapped mappings_VOT2 data ''VOT2'' ''Not specified'') (\<lambda>vote.
     bind_exn (mapped mappings_CCP1_1 data ''CCP1_1''
                 ''Neutral on U.S. withdrawal from Paris Agreement'') (\<lambda>paris.
     Inr [(''Gender'', gender),
          (''Age'', age),
          (''Education'', education),
          (''Income'', income),
          (''Race/Ethnicity'', race),
          (''Political Stance'', stance),
          (''Party Affiliation'', party),
          (''2024 Vote'', vote),
          (''Paris Agreement Stance'', paris)])))))))))"


section \<open>The prompt builder\<close>

definition ldquo :: string where
  \<comment> \<open>U+201C LEFT DOUBLE QUOTATION MARK\<close>
  "ldquo = [CHR 0xE2, CHR 0x80, CHR 0x9C]"

definition rdquo :: string where
  \<comment> \<open>U+201D RIGHT DOUBLE QUOTATION MARK\<close>
  "rdquo = [CHR 0xE2, CHR 0x80, CHR 0x9D]"

definition emdash :: string where
  \<comment> \<open>U+2014 EM DASH\<close>
  "emdash = [CHR 0xE2, CHR 0x80, CHR 0x94]"

text \<open>
  The lines of the instruction block between its opening line break and the indentation
  before its closing quotes.
\<close>

definition system_prompt_lines :: "string list" where
  \<open>system_prompt_lines =
     [''    Your task is to generate a short news article about the Trump '' @
       ''administration's climate policies.'',
      ''    Begin with the sentence:'',
      ''    '' @ ldquo @
        ''The Trump administration announced the U.S. withdrawal from the Paris '' @
        ''Agreement in January 2025. This decision comes with far-reaching '' @
        ''implications.'' @ rdquo,
      [],
      ''    Strictly follow these rules for the output:'',
      ''    1.  Profile Context:'',
      ''    Analyze the user's profile to infer their likely stance on climate change.'',
      ''    2.  Persona Generation:'',
      ''    Simulate the persona of an American adult who holds the opposite stance '' @
        ''on climate change from that inferred from the profile.'',
      ''    Do NOT mention or refer to the '' @ ldquo @ ''user,'' @ rdquo @
        '' "profile group," '' @ ldquo @ ''AI,'' @ rdquo @ '' or '' @ ldquo @
        ''simulated persona'' @ rdquo @ '' in the article itself.'',
      ''    3.  Article Structure (logically connected to the opening sentence):'',
      ''    1) Part 1 (THE FIRST PARAGRAPH IN ORDER): '',
      ''    A news-style paragraph reporting how the user's (ideological or '' @
        ''partisan) profile group interprets and evaluates the simulated persona '' @
        ''group's opinions or arguments on climate policy, AND why they do so.'',
      ''    2) Part 2 (THE SECOND PARAGRAPH IN ORDER '' @ emdash @ '' following Part 1): '',
      ''    A counterargument paragraph describing how the simulated persona's '' @
        ''(ideological or partisan) group interprets and evaluates the user profile '' @
        ''group's opinions or arguments on climate policy, AND why they do so.'',
      ''    4.  Tone Requirement: '',
      ''    Must use plain, respectful language.'',
      ''    5.  Length:'',
      ''    The article must be between 150 and 180 words in total.'',
      ''    6.  Headline:'',
      ''    Include a typical online news-style headline that highlights how '' @
        ''opposing groups view and interpret each other's perspectives on the issue.'',
      ''    7.  Include exactly four external news source labels within the text. '' @
        ''Format them like [LABEL:Tooltip text]. For example: [Source: Pew Research '' @
        ''Center, Nov 7, 2024]. Do not include actual hyperlinks.'',
      ''    8.  Your final output must be a valid JSON object with three keys: '' @
        ''"headline", "body", and "persona_adopted". The "persona_adopted" key should '' @
        ''briefly state the persona you chose (e.g., "Conservative, skeptical of '' @
        ''climate regulations").'']\<close>

definition system_prompt :: string where
  "system_prompt =
     ''\<newline>'' @ concat (map (\<lambda>line. line @ ''\<newline>'') system_prompt_lines) @ ''    ''"

definition create_prompt :: "(json \<Rightarrow> string) \<Rightarrow> (string \<times> json) list \<Rightarrow> string \<times> string" where
  \<comment> \<open>\<open>json.dumps\<close> is a parameter\<close>
  "create_prompt dumps profile =
     (system_prompt,
      ''Here is the survey participant's profile: '' @ dumps (JObj profile) @
      ''. Generate the news article based on these details and the rules provided.'')"


section \<open>The request handler\<close>

text \<open>
  What the handler reads from outside: the method of the request and what
  \<open>request.get_json(silent=True)\<close> returns (\<open>None\<close>, here \<open>JNull\<close>, when the body is absent
  or cannot be parsed); the global \<open>CLIENT\<close>, which is \<open>None\<close> when the key was not set at
  start-up; and the library functions \<open>json.dumps\<close> and \<open>json.loads\<close>. The client is the
  outcome of \<open>CLIENT.chat.completions.create\<close> for a call: an exception, or a completion,
  held as the contents of the messages of its choices.
\<close>

record chat_call =
  model :: string
  messages :: "(string \<times> string) list"
  temperature :: real
  response_format :: string
  timeout :: real

type_synonym completion = "string option list"

type_synonym client = "chat_call \<Rightarrow> exn + completion"

record env =
  CLIENT :: "client option"
  json_dumps :: "json \<Rightarrow> string"
  json_loads :: "string \<Rightarrow> exn + json"

record request =
  request_method :: string
  get_json :: json

datatype body = Text string | Json json

type_synonym response = "body \<times> nat \<times> (string \<times> string) list"

definition jsonify :: "json \<Rightarrow> body" where
  "jsonify j = Json j"

text \<open>
  The components the handler invokes are recorded in order beside its response, the
  outbound call with its arguments. What the handler prints is left out.
\<close>

datatype event =
    Invoked_map_responses
  | Invoked_create_prompt
  | Invoked_completions_create chat_call
  | Invoked_format_body_with_hovers

text \<open>
  \<^verbatim>\<open>
  response_json_string = completion.choices[0].message.content
  response_data = json.loads(response_json_string)
  headline = response_data.get("headline", "No Headline")
  body_raw = response_data.get("body", "No content generated.")
  \<close>
\<close>

definition response_fields :: "(string \<Rightarrow> exn + json) \<Rightarrow> completion \<Rightarrow> exn + json \<times> json" where
  "response_fields loads completion =
     (case completion of
        [] \<Rightarrow> Inl (Exception ''list index out of range'')
      | content # _ \<Rightarrow>
          (case content of
             None \<Rightarrow>
               Inl (Exception ''the JSON object must be str, bytes or bytearray, not NoneType'')
           | Some response_json_string \<Rightarrow>
               bind_exn (loads response_json_string) (\<lambda>response_data.
               bind_exn (dict_get response_data ''headline'' (JStr ''No Headline'')) (\<lambda>headline.
               bind_exn (dict_get response_data ''body'' (JStr ''No content generated.''))
                 (\<lambda>body_raw. Inr (headline, body_raw))))))"

definition format_body_with_hovers_of :: "json \<Rightarrow> exn + json" where
  \<comment> \<open>\<open>format_body_with_hovers(body_raw)\<close>: \<open>sub\<close> refuses what is not a string\<close>
  "format_body_with_hovers_of body_raw =
     (case body_raw of
        JStr text_body \<Rightarrow> Inr (JStr (format_body_with_hovers text_body))
      | _ \<Rightarrow>
          Inl (Exception (''expected string or bytes-like object, got '' @
                 squote @ type_name body_raw @ squote)))"

definition process_response ::
  "env \<Rightarrow> completion \<Rightarrow> (string \<times> json) list \<Rightarrow> (string \<times> string) list \<Rightarrow>
     (exn + response) \<times> event list" where
  "process_response env completion participant_profile headers =
     (case response_fields (json_loads env) completion of
        Inl e \<Rightarrow> (Inl e, [])
      | Inr (headline, body_raw) \<Rightarrow>
          (case format_body_with_hovers_of body_raw of
             Inl e \<Rightarrow> (Inl e, [Invoked_format_body_with_hovers])
           | Inr body_formatted \<Rightarrow>
               (Inr (jsonify (JObj
                       [(''headline'', headline),
                        (''body'', body_formatted),
                        (''debug_info'', JObj [(''profile'', JObj participant_profile)])]),
                     200, headers),
                [Invoked_format_body_with_hovers])))"

text \<open>The body of the \<open>try\<close> statement: a response it returns, or the exception it raises.\<close>

definition try_body ::
  "env \<Rightarrow> request \<Rightarrow> (string \<times> string) list \<Rightarrow> (exn + response) \<times> event list" where
  "try_body env request headers =
     (case CLIENT env of
        None \<Rightarrow>
          (Inl (EnvironmentError ''OPENAI_API_KEY is not set or client failed to initialize.''),
           [])
      | Some create \<Rightarrow>
          let request_data = get_json request in
          if \<not> truthy request_data then
            (Inr (jsonify (JObj [(''error'', JStr ''Missing JSON payload in request.'')]),
                  400, headers),
             [])
          else
            (case map_responses request_data of
               Inl e \<Rightarrow> (Inl e, [Invoked_map_responses])
             | Inr participant_profile \<Rightarrow>
                 let (system_prompt, user_prompt) =
                       create_prompt (json_dumps env) participant_profile;
                     call = \<lparr>model = ''ft:gpt-4o-2024-08-06:personal::A8vV3mNd'',
                             messages = [(''system'', system_prompt), (''user'', user_prompt)],
                             temperature = 7 / 10,
                             response_format = ''json_object'',
                             timeout = 40\<rparr>;
                     events = [Invoked_map_responses, Invoked_create_prompt,
                               Invoked_completions_create call]
                 in
                   (case create call of
                      Inl e \<Rightarrow> (Inl e, events)
                    | Inr completion \<Rightarrow>
                        (case process_response env completion participant_profile headers of
                           (result, later) \<Rightarrow> (result, events @ later)))))"

text \<open>The \<open>except\<close> clauses, in their order.\<close>

fun handle :: "exn \<Rightarrow> (string \<times> string) list \<Rightarrow> response" where
  "handle (RateLimitError e) headers =
     (jsonify (JObj [(''error'', JStr ''OpenAI API rate limit exceeded.''),
                     (''message'', JStr e)]),
      429, headers)"
| "handle (APIConnectionError e) headers =
     (jsonify (JObj [(''error'', JStr ''Could not connect to OpenAI API.''),
                     (''message'', JStr e)]),
      503, headers)"
| "handle (APIError e) headers =
     (jsonify (JObj [(''error'', JStr ''OpenAI API returned an error.''),
                     (''message'', JStr e)]),
      502, headers)"
| "handle (EnvironmentError ee) headers =
     (jsonify (JObj [(''error'', JStr ee),
                     (''message'', JStr ''Server configuration error.'')]),
      500, headers)"
| "handle (Exception e) headers =
     (jsonify (JObj [(''error'', JStr e),
                     (''message'', JStr ''An internal server error occurred.'')]),
      500, headers)"

definition generate_news_endpoint :: "env \<Rightarrow> request \<Rightarrow> response \<times> event list" where
  "generate_news_endpoint env request =
     (if request_method request = ''OPTIONS'' then
        ((Text [], 204,
          [(''Access-Control-Allow-Origin'', ''*''),
           (''Access-Control-Allow-Methods'', ''POST''),
           (''Access-Control-Allow-Headers'', ''Content-Type''),
           (''Access-Control-Max-Age'', ''3600'')]),
         [])
      else
        let headers = [(''Access-Control-Allow-Origin'', ''*'')] in
        (case try_body env request headers of
           (Inr response, events) \<Rightarrow> (response, events)
         | (Inl e, events) \<Rightarrow> (handle e headers, events)))"



section \<open>Citation markers\<close>

text \<open>
  The text of a citation marker, and the grammar the pattern accepts. The pieces of a body
  are the matches that \<open>sub\<close> finds, in order, with the characters between them (what
  \<open>finditer\<close> and the gaps between its matches give).
\<close>

definition marker :: "string \<Rightarrow> string \<Rightarrow> string" where
  "marker label tooltip = ''['' @ label @ '':'' @ tooltip @ '']''"

definition well_formed :: "string \<Rightarrow> string \<Rightarrow> bool" where
  "well_formed label tooltip \<longleftrightarrow>
     label \<noteq> [] \<and> CHR '':'' \<notin> set label \<and> tooltip \<noteq> [] \<and> CHR '']'' \<notin> set tooltip"

datatype piece = Outside char | Marker string string

fun source_text :: "piece \<Rightarrow> string" where
  "source_text (Outside c) = [c]"
| "source_text (Marker label tooltip) = marker label tooltip"

fun rewritten :: "piece \<Rightarrow> string" where
  "rewritten (Outside c) = [c]"
| \<open>rewritten (Marker label tooltip) =
     ''<span class="source-label">'' @ label @
     ''<span class="source-tooltip">'' @ tooltip @ ''</span></span>''\<close>

fun is_well_formed :: "piece \<Rightarrow> bool" where
  "is_well_formed (Outside c) = True"
| "is_well_formed (Marker label tooltip) = well_formed label tooltip"

function split_markers :: "string \<Rightarrow> piece list" where
  "split_markers [] = []"
| "split_markers (c # cs) =
     (case HOVER_PATTERN (c # cs) of
        Some (label, tooltip, rest) \<Rightarrow> Marker label tooltip # split_markers rest
      | None \<Rightarrow> Outside c # split_markers cs)"
  by pat_completeness auto
termination
proof (relation "measure length")
  show "wf (measure length)" by simp
next
  fix c cs x2 label y tooltip rest
  assume "HOVER_PATTERN (c # cs) = Some x2" and "(label, y) = x2" and "(tooltip, rest) = y"
  then have "HOVER_PATTERN (c # cs) = Some (label, tooltip, rest)" by simp
  from HOVER_PATTERN_consumes [OF this]
  show "(rest, c # cs) \<in> measure length" by simp
next
  fix c cs
  show "(cs, c # cs) \<in> measure length" by simp
qed

definition marker_free :: "string \<Rightarrow> bool" where
  "marker_free s = list_all (\<lambda>i. HOVER_PATTERN (drop i s) = None) [0..<length s]"

text \<open>
  The pattern as the specification words it, \<open>\[([^:\]]+):([^\]]+)\]\<close>: a label is one or
  more characters that are neither \<open>:\<close> nor \<open>]\<close>. A body is free of such markers when
  this pattern matches at none of its positions.
\<close>

definition SPEC_PATTERN :: "string \<Rightarrow> (string \<times> string \<times> string) option" where
  "SPEC_PATTERN =
     lit CHR ''[''
       (plus_greedy (\<lambda>c. c \<noteq> CHR '':'' \<and> c \<noteq> CHR '']'') (\<lambda>label.
          lit CHR '':''
            (plus_greedy (\<lambda>c. c \<noteq> CHR '']'') (\<lambda>tooltip.
               lit CHR '']'' (\<lambda>rest. Some (label, tooltip, rest))))))"

definition spec_marker_free :: "string \<Rightarrow> bool" where
  "spec_marker_free s = list_all (\<lambda>i. SPEC_PATTERN (drop i s) = None) [0..<length s]"


section \<open>Survey responses and profiles\<close>

text \<open>
  A survey response maps field codes to answer codes, both strings; as a payload it is the
  \<open>dict\<close> of these strings.
\<close>

definition survey :: "(string \<times> string) list \<Rightarrow> json" where
  "survey answers = JObj (map (\<lambda>(key, code). (key, JStr code)) answers)"

text \<open>
  A \<open>list\<close> or a \<open>dict\<close> cannot be hashed, so it cannot be looked up in a table. The codes
  of a payload are hashable when none of the eight fields that have a table holds one. A
  code is not in a table when the field is absent, when it is a string that is no key of
  the table, or when it is a value of another hashable type, which equals no key.
\<close>

fun hashable :: "json \<Rightarrow> bool" where
  "hashable (JArr xs) = False"
| "hashable (JObj items) = False"
| "hashable j = True"

definition table_fields :: "string list" where
  "table_fields =
     [''DEM1'', ''DEM3'', ''DEM4'', ''DEM5'', ''DEM7'', ''DEM8'', ''VOT2'', ''CCP1_1'']"

definition codes_hashable :: "(string \<times> json) list \<Rightarrow> bool" where
  "codes_hashable items =
     list_all (\<lambda>key. case map_of items key of None \<Rightarrow> True | Some code \<Rightarrow> hashable code)
       table_fields"

fun not_in_table :: "(string \<times> string) list \<Rightarrow> json option \<Rightarrow> bool" where
  "not_in_table table None = True"
| "not_in_table table (Some (JStr code)) = (map_of table code = None)"
| "not_in_table table (Some (JArr xs)) = False"
| "not_in_table table (Some (JObj items)) = False"
| "not_in_table table (Some j) = True"

fun mapped_label :: "(string \<times> string) list \<Rightarrow> json option \<Rightarrow> string \<Rightarrow> string" where
  "mapped_label table (Some (JStr code)) fallback =
     (case map_of table code of None \<Rightarrow> fallback | Some label \<Rightarrow> label)"
| "mapped_label table j fallback = fallback"

definition profile_keys :: "string list" where
  "profile_keys =
     [''Gender'', ''Age'', ''Education'', ''Income'', ''Race/Ethnicity'', ''Political Stance'',
      ''Party Affiliation'', ''2024 Vote'', ''Paris Agreement Stance'']"

fun is_str :: "json \<Rightarrow> bool" where
  "is_str (JStr s) = True"
| "is_str j = False"

definition label_of :: "(string \<times> string) list \<Rightarrow> (string \<times> string) list \<Rightarrow> string \<Rightarrow> string \<Rightarrow> string" where
  "label_of table answers key fallback =
     (case map_of answers key of
        None \<Rightarrow> fallback
      | Some code \<Rightarrow> (case map_of table code of None \<Rightarrow> fallback | Some label \<Rightarrow> label))"


section \<open>The call to the text-generation service\<close>

definition call_of :: "env \<Rightarrow> (string \<times> json) list \<Rightarrow> chat_call" where
  \<comment> \<open>the arguments of the outbound call the handler makes for a profile\<close>
  "call_of env participant_profile =
     \<lparr>model = ''ft:gpt-4o-2024-08-06:personal::A8vV3mNd'',
      messages = [(''system'', fst (create_prompt (json_dumps env) participant_profile)),
                  (''user'', snd (create_prompt (json_dumps env) participant_profile))],
      temperature = 7 / 10,
      response_format = ''json_object'',
      timeout = 40\<rparr>"

text \<open>The keys of the object in the body of a response.\<close>

fun body_keys :: "body \<Rightarrow> string list" where
  "body_keys (Json (JObj items)) = map fst items"
| "body_keys b = []"

definition body_text :: "(string \<times> json) list \<Rightarrow> string option" where
  \<comment> \<open>the body of a parsed completion when it is absent or a string\<close>
  "body_text members =
     (case map_of members ''body'' of
        None \<Rightarrow> Some ''No content generated.''
      | Some (JStr text_body) \<Rightarrow> Some text_body
      | Some _ \<Rightarrow> None)"

text \<open>
  The shapes of a response: the preflight and the success response, the bad-request response
  with the key \<open>error\<close>, and the responses of the \<open>except\<close> clauses with the keys \<open>error\<close>
  and \<open>message\<close>.
\<close>

definition response_shape_holds :: "response \<Rightarrow> bool" where
  "response_shape_holds r =
     (case r of (b, s, h) \<Rightarrow>
        s = 204 \<or> s = 200 \<or>
        s = 400 \<and> body_keys b = [''error''] \<or>
        s \<in> {429, 500, 502, 503} \<and> body_keys b = [''error'', ''message''])"


section \<open>Example requests\<close>

text \<open>
  The inputs of the examples below: a configured environment around a given client, and a
  request whose payload is the survey response \<open>{"DEM1": "1"}\<close>. The examples look at no
  serialised profile, so \<open>example_dumps\<close> is a constant; \<open>example_loads\<close> is \<open>json.loads\<close>
  at the two texts the examples parse.
\<close>

definition example_dumps :: "json \<Rightarrow> string" where
  "example_dumps j = ''{}''"

definition example_loads :: "string \<Rightarrow> exn + json" where
  \<open>example_loads s =
     (if s = ''{}'' then Inr (JObj [])
      else if s = ''{"body": ["One.", "Two."]}'' then
        Inr (JObj [(''body'', JArr [JStr ''One.'', JStr ''Two.''])])
      else Inl (Exception ''Expecting value: line 1 column 1 (char 0)''))\<close>

definition example_env :: "client \<Rightarrow> env" where
  "example_env create =
     \<lparr>CLIENT = Some create, json_dumps = example_dumps, json_loads = example_loads\<rparr>"

definition example_request :: request where
  "example_request = \<lparr>request_method = ''POST'', get_json = survey [(''DEM1'', ''1'')]\<rparr>"

definition example_profile :: "(string \<times> json) list" where
  "example_profile =
     [(''Gender'', JStr ''Female''),
      (''Age'', JStr ''Not specified''),
      (''Education'', JStr ''Not specified''),
      (''Income'', JStr ''Not specified''),
      (''Race/Ethnicity'', JStr ''Not specified''),
      (''Political Stance'', JStr ''Not specified''),
      (''Party Affiliation'', JStr ''Not specified''),
      (''2024 Vote'', JStr ''Not specified''),
      (''Paris Agreement Stance'', JStr ''Neutral on U.S. withdrawal from Paris Agreement'')]"

definition rate_limited :: client where
  "rate_limited call = Inl (RateLimitError ''Error code: 429'')"

definition unreachable :: client where
  "unreachable call = Inl (APIConnectionError ''Connection error.'')"

definition rejecting :: client where
  "rejecting call = Inl (APIError ''Error code: 500'')"

definition answering :: "string \<Rightarrow> client" where
  "answering content call = Inr [Some content]"


section \<open>Facts about the annotation formatter\<close>

lemma HOVER_PATTERN_Some_iff:
  "HOVER_PATTERN s = Some (label, tooltip, rest) \<longleftrightarrow>
     well_formed label tooltip \<and> s = marker label tooltip @ rest"
proof
  assume m: "HOVER_PATTERN s = Some (label, tooltip, rest)"
  then obtain b s1 x s2 y where
    s: "s = b # s1" and b: "b = CHR ''[''" and
    l: "label = takeWhile (\<lambda>c. c \<noteq> CHR '':'') s1" "label \<noteq> []" and
    s1: "dropWhile (\<lambda>c. c \<noteq> CHR '':'') s1 = x # s2" and
    t: "tooltip = takeWhile (\<lambda>c. c \<noteq> CHR '']'') s2" "tooltip \<noteq> []" and
    s2: "dropWhile (\<lambda>c. c \<noteq> CHR '']'') s2 = y # rest"
    unfolding HOVER_PATTERN_unfold [of s]
    by (auto split: list.splits if_splits)
  have x: "x = CHR '':''"
    using hd_dropWhile [of "\<lambda>c. c \<noteq> CHR '':''" s1] s1 by auto
  have y: "y = CHR '']''"
    using hd_dropWhile [of "\<lambda>c. c \<noteq> CHR '']''" s2] s2 by auto
  have "s1 = label @ x # s2"
    using takeWhile_dropWhile_id [of "\<lambda>c. c \<noteq> CHR '':''" s1] l(1) s1 by simp
  moreover have "s2 = tooltip @ y # rest"
    using takeWhile_dropWhile_id [of "\<lambda>c. c \<noteq> CHR '']''" s2] t(1) s2 by simp
  ultimately have "s = marker label tooltip @ rest"
    using s b x y by (simp add: marker_def)
  moreover have "CHR '':'' \<notin> set label"
    unfolding l(1) by (auto dest: set_takeWhileD)
  moreover have "CHR '']'' \<notin> set tooltip"
    unfolding t(1) by (auto dest: set_takeWhileD)
  ultimately show "well_formed label tooltip \<and> s = marker label tooltip @ rest"
    using l(2) t(2) by (simp add: well_formed_def)
next
  assume a: "well_formed label tooltip \<and> s = marker label tooltip @ rest"
  then have l: "label \<noteq> []" "\<forall>c\<in>set label. c \<noteq> CHR '':''"
    and t: "tooltip \<noteq> []" "\<forall>c\<in>set tooltip. c \<noteq> CHR '']''"
    by (auto simp: well_formed_def)
  have s: "s = CHR ''['' # (label @ CHR '':'' # (tooltip @ CHR '']'' # rest))"
    using a by (simp add: marker_def)
  have tl: "takeWhile (\<lambda>c. c \<noteq> CHR '':'') (label @ CHR '':'' # (tooltip @ CHR '']'' # rest)) = label"
    using l(2) by (simp add: takeWhile_append2)
  have dl: "dropWhile (\<lambda>c. c \<noteq> CHR '':'') (label @ CHR '':'' # (tooltip @ CHR '']'' # rest))
      = CHR '':'' # (tooltip @ CHR '']'' # rest)"
    using l(2) by (simp add: dropWhile_append2)
  have tt: "takeWhile (\<lambda>c. c \<noteq> CHR '']'') (tooltip @ CHR '']'' # rest) = tooltip"
    using t(2) by (simp add: takeWhile_append2)
  have dt: "dropWhile (\<lambda>c. c \<noteq> CHR '']'') (tooltip @ CHR '']'' # rest) = CHR '']'' # rest"
    using t(2) by (simp add: dropWhile_append2)
  show "HOVER_PATTERN s = Some (label, tooltip, rest)"
    unfolding s
    by (subst HOVER_PATTERN_unfold) (simp add: tl dl tt dt l(1) t(1))
qed

lemma sub_split: "HOVER_PATTERN_sub s = concat (map rewritten (split_markers s))"
  by (induction s rule: HOVER_PATTERN_sub.induct)
    (simp_all add: replacer_def split: option.split)

lemma source_split: "concat (map source_text (split_markers s)) = s"
proof (induction s rule: split_markers.induct)
  case 1
  show ?case by simp
next
  case (2 c cs)
  show ?case
  proof (cases "HOVER_PATTERN (c # cs)")
    case None
    with 2 show ?thesis by simp
  next
    case (Some m)
    obtain label tooltip rest where m: "m = (label, tooltip, rest)"
      by (cases m) auto
    have some: "HOVER_PATTERN (c # cs) = Some (label, tooltip, rest)"
      using Some m by simp
    have eq: "c # cs = marker label tooltip @ rest"
      using some HOVER_PATTERN_Some_iff by blast
    have IH: "concat (map source_text (split_markers rest)) = rest"
      by (rule 2(2) [OF some refl refl])
    have "concat (map source_text (split_markers (c # cs))) = marker label tooltip @ rest"
      using some IH by simp
    then show ?thesis
      by (simp only: eq)
  qed
qed

lemma split_well_formed: "list_all is_well_formed (split_markers s)"
proof (induction s rule: split_markers.induct)
  case 1
  show ?case by simp
next
  case (2 c cs)
  show ?case
  proof (cases "HOVER_PATTERN (c # cs)")
    case None
    with 2 show ?thesis by simp
  next
    case (Some m)
    obtain label tooltip rest where m: "m = (label, tooltip, rest)"
      by (cases m) auto
    have some: "HOVER_PATTERN (c # cs) = Some (label, tooltip, rest)"
      using Some m by simp
    have "well_formed label tooltip"
      using some HOVER_PATTERN_Some_iff by blast
    moreover have "list_all is_well_formed (split_markers rest)"
      by (rule 2(2) [OF some refl refl])
    ultimately show ?thesis
      using some by simp
  qed
qed

lemma marker_free_Cons:
  "marker_free (c # cs) \<longleftrightarrow> HOVER_PATTERN (c # cs) = None \<and> marker_free cs"
proof -
  have "[0..<length (c # cs)] = 0 # map Suc [0..<length cs]"
    by (simp add: upt_conv_Cons map_Suc_upt del: upt_Suc)
  then have "marker_free (c # cs) =
      list_all (\<lambda>i. HOVER_PATTERN (drop i (c # cs)) = None) (0 # map Suc [0..<length cs])"
    by (simp only: marker_free_def)
  also have "\<dots> = (HOVER_PATTERN (c # cs) = None \<and>
      list_all (\<lambda>i. HOVER_PATTERN (drop i cs) = None) [0..<length cs])"
    by (simp add: list.pred_map comp_def)
  finally show ?thesis
    by (simp only: marker_free_def)
qed

lemma marker_free_sub: "marker_free s \<Longrightarrow> HOVER_PATTERN_sub s = s"
  by (induction s) (simp_all add: marker_free_Cons)

lemma marker_free_iff:
  "marker_free s \<longleftrightarrow> (\<forall>pre label tooltip post. s = pre @ marker label tooltip @ post \<longrightarrow> \<not> well_formed label tooltip)"
proof
  assume mf: "marker_free s"
  show "\<forall>pre label tooltip post. s = pre @ marker label tooltip @ post \<longrightarrow> \<not> well_formed label tooltip"
  proof (intro allI impI notI)
    fix pre label tooltip post
    assume s: "s = pre @ marker label tooltip @ post" and wf: "well_formed label tooltip"
    have "length pre < length s" using s by (simp add: marker_def)
    then have "HOVER_PATTERN (drop (length pre) s) = None"
      using mf by (simp add: marker_free_def list_all_iff)
    moreover have "drop (length pre) s = marker label tooltip @ post" using s by simp
    ultimately show False using wf HOVER_PATTERN_Some_iff [of "marker label tooltip @ post" label tooltip post] by simp
  qed
next
  assume g: "\<forall>pre label tooltip post. s = pre @ marker label tooltip @ post \<longrightarrow> \<not> well_formed label tooltip"
  show "marker_free s"
    unfolding marker_free_def list_all_iff
  proof
    fix i assume "i \<in> set [0..<length s]"
    show "HOVER_PATTERN (drop i s) = None"
    proof (rule ccontr)
      assume "HOVER_PATTERN (drop i s) \<noteq> None"
      then obtain label tooltip rest where "HOVER_PATTERN (drop i s) = Some (label, tooltip, rest)"
        by auto
      then have "well_formed label tooltip" and "drop i s = marker label tooltip @ rest"
        using HOVER_PATTERN_Some_iff by blast+
      moreover have "s = take i s @ drop i s" by simp
      ultimately show False using g by metis
    qed
  qed
qed


section \<open>Facts about the profile mapper\<close>

lemma map_of_survey:
  "map_of (map (\<lambda>(key, code). (key, JStr code)) answers) key = map_option JStr (map_of answers key)"
  by (induction answers) auto

lemma dict_get_survey:
  "dict_get (survey answers) key fallback =
     Inr (case map_of answers key of None \<Rightarrow> fallback | Some code \<Rightarrow> JStr code)"
  by (simp add: dict_get_def survey_def map_of_survey split: option.split)

lemma mapped_survey:
  "mapped table (survey answers) key fallback = Inr (JStr (label_of table answers key fallback))"
  by (simp add: mapped_def dict_get_survey table_get_def label_of_def split: option.split)

lemma map_responses_survey:
  "map_responses (survey answers) =
     Inr [(''Gender'', JStr (label_of mappings_DEM1 answers ''DEM1'' ''Not specified'')),
          (''Age'', (case map_of answers ''DEM2'' of
                       None \<Rightarrow> JStr ''Not specified'' | Some code \<Rightarrow> JStr code)),
          (''Education'', JStr (label_of mappings_DEM3 answers ''DEM3'' ''Not specified'')),
          (''Income'', JStr (label_of mappings_DEM4 answers ''DEM4'' ''Not specified'')),
          (''Race/Ethnicity'', JStr (label_of mappings_DEM5 answers ''DEM5'' ''Not specified'')),
          (''Political Stance'', JStr (label_of mappings_DEM7 answers ''DEM7'' ''Not specified'')),
          (''Party Affiliation'', JStr (label_of mappings_DEM8 answers ''DEM8'' ''Not specified'')),
          (''2024 Vote'', JStr (label_of mappings_VOT2 answers ''VOT2'' ''Not specified'')),
          (''Paris Agreement Stance'',
           JStr (label_of mappings_CCP1_1 answers ''CCP1_1''
                   ''Neutral on U.S. withdrawal from Paris Agreement''))]"
  by (simp only: map_responses_def mapped_survey dict_get_survey bind_exn.simps)

lemma bind_exn_Inr_iff:
  "bind_exn m f = Inr y \<longleftrightarrow> (\<exists>x. m = Inr x \<and> f x = Inr y)"
  by (cases m) simp_all

lemma map_responses_keys:
  "map_responses data = Inr profile \<Longrightarrow> map fst profile = profile_keys"
  unfolding map_responses_def profile_keys_def
  by (auto simp: bind_exn_Inr_iff)


lemma mapped_dict:
  assumes "case map_of items key of None \<Rightarrow> True | Some code \<Rightarrow> hashable code"
  shows "mapped table (JObj items) key fallback =
     Inr (JStr (mapped_label table (map_of items key) fallback))"
proof (cases "map_of items key")
  case None
  then show ?thesis
    by (simp add: mapped_def dict_get_def table_get_def)
next
  case (Some code)
  then have "hashable code"
    using assms by simp
  then show ?thesis
    using Some by (cases code) (simp_all add: mapped_def dict_get_def table_get_def)
qed

lemma codes_hashable_survey:
  "codes_hashable (map (\<lambda>(key, code). (key, JStr code)) answers)"
  by (simp add: codes_hashable_def list_all_iff map_of_survey split: option.split)

lemma mapped_label_default:
  "not_in_table table code \<Longrightarrow> mapped_label table code fallback = fallback"
  by (induction table code rule: not_in_table.induct) simp_all

lemma map_responses_dict:
  assumes "codes_hashable items"
  shows "map_responses (JObj items) =
     Inr [(''Gender'', JStr (mapped_label mappings_DEM1 (map_of items ''DEM1'') ''Not specified'')),
          (''Age'', (case map_of items ''DEM2'' of
                       None \<Rightarrow> JStr ''Not specified'' | Some code \<Rightarrow> code)),
          (''Education'', JStr (mapped_label mappings_DEM3 (map_of items ''DEM3'') ''Not specified'')),
          (''Income'', JStr (mapped_label mappings_DEM4 (map_of items ''DEM4'') ''Not specified'')),
          (''Race/Ethnicity'',
           JStr (mapped_label mappings_DEM5 (map_of items ''DEM5'') ''Not specified'')),
          (''Political Stance'',
           JStr (mapped_label mappings_DEM7 (map_of items ''DEM7'') ''Not specified'')),
          (''Party Affiliation'',
           JStr (mapped_label mappings_DEM8 (map_of items ''DEM8'') ''Not specified'')),
          (''2024 Vote'', JStr (mapped_label mappings_VOT2 (map_of items ''VOT2'') ''Not specified'')),
          (''Paris Agreement Stance'',
           JStr (mapped_label mappings_CCP1_1 (map_of items ''CCP1_1'')
                   ''Neutral on U.S. withdrawal from Paris Agreement''))]"
proof -
  have h: "case map_of items key of None \<Rightarrow> True | Some code \<Rightarrow> hashable code"
    if "key \<in> set table_fields" for key
    using assms that by (simp add: codes_hashable_def list_all_iff)
  have age: "dict_get (JObj items) ''DEM2'' (JStr ''Not specified'') =
      Inr (case map_of items ''DEM2'' of None \<Rightarrow> JStr ''Not specified'' | Some code \<Rightarrow> code)"
    by (simp add: dict_get_def split: option.split)
  have m: "mapped table (JObj items) key fallback =
      Inr (JStr (mapped_label table (map_of items key) fallback))"
    if "key \<in> set table_fields" for table key fallback
    using h [OF that] by (rule mapped_dict)
  show ?thesis
    unfolding map_responses_def
    by (simp only: m age bind_exn.simps table_fields_def list.set insert_iff simp_thms)
qed

section \<open>Facts about the request handler\<close>

lemma handle_not_200: "handle e headers \<noteq> (b, 200, h)"
  by (cases e) auto

lemma endpoint_preflight:
  "request_method request = ''OPTIONS'' \<Longrightarrow>
   generate_news_endpoint env request =
     ((Text [], 204,
       [(''Access-Control-Allow-Origin'', ''*''),
        (''Access-Control-Allow-Methods'', ''POST''),
        (''Access-Control-Allow-Headers'', ''Content-Type''),
        (''Access-Control-Max-Age'', ''3600'')]),
      [])"
  by (simp add: generate_news_endpoint_def)

lemma endpoint_missing_payload:
  "request_method request \<noteq> ''OPTIONS'' \<Longrightarrow> CLIENT env = Some create \<Longrightarrow> \<not> truthy (get_json request) \<Longrightarrow>
   generate_news_endpoint env request =
     ((jsonify (JObj [(''error'', JStr ''Missing JSON payload in request.'')]), 400,
       [(''Access-Control-Allow-Origin'', ''*'')]),
      [])"
  by (simp add: generate_news_endpoint_def try_body_def)

lemma endpoint_reaches_call:
  assumes "request_method request \<noteq> ''OPTIONS''" and "CLIENT env = Some create"
    and "truthy (get_json request)" and "map_responses (get_json request) = Inr profile"
  shows "generate_news_endpoint env request =
     (case create (call_of env profile) of
        Inl e \<Rightarrow>
          (handle e [(''Access-Control-Allow-Origin'', ''*'')],
           [Invoked_map_responses, Invoked_create_prompt,
            Invoked_completions_create (call_of env profile)])
      | Inr completion \<Rightarrow>
          (case process_response env completion profile
                  [(''Access-Control-Allow-Origin'', ''*'')] of
             (Inl e, later) \<Rightarrow>
               (handle e [(''Access-Control-Allow-Origin'', ''*'')],
                [Invoked_map_responses, Invoked_create_prompt,
                 Invoked_completions_create (call_of env profile)] @ later)
           | (Inr response, later) \<Rightarrow>
               (response,
                [Invoked_map_responses, Invoked_create_prompt,
                 Invoked_completions_create (call_of env profile)] @ later)))"
  using assms
  by (simp add: generate_news_endpoint_def try_body_def call_of_def create_prompt_def
      split: sum.split prod.split)

lemma endpoint_no_client:
  "request_method request \<noteq> ''OPTIONS'' \<Longrightarrow> CLIENT env = None \<Longrightarrow>
   generate_news_endpoint env request =
     (handle (EnvironmentError ''OPENAI_API_KEY is not set or client failed to initialize.'')
        [(''Access-Control-Allow-Origin'', ''*'')],
      [])"
  by (simp add: generate_news_endpoint_def try_body_def)

lemma endpoint_mapper_raises:
  "request_method request \<noteq> ''OPTIONS'' \<Longrightarrow> CLIENT env = Some create \<Longrightarrow> truthy (get_json request) \<Longrightarrow>
   map_responses (get_json request) = Inl e \<Longrightarrow>
   generate_news_endpoint env request =
     (handle e [(''Access-Control-Allow-Origin'', ''*'')], [Invoked_map_responses])"
  by (simp add: generate_news_endpoint_def try_body_def)

lemma call_invoked:
  assumes "Invoked_completions_create call \<in> set (snd (generate_news_endpoint env request))"
  shows "\<exists>create profile.
     request_method request \<noteq> ''OPTIONS'' \<and> CLIENT env = Some create \<and> truthy (get_json request) \<and>
     map_responses (get_json request) = Inr profile \<and> call = call_of env profile"
proof -
  have m: "request_method request \<noteq> ''OPTIONS''"
    using assms endpoint_preflight [of request env] by auto
  obtain create where c: "CLIENT env = Some create"
    using assms endpoint_no_client [OF m, of env] by (cases "CLIENT env") auto
  have t: "truthy (get_json request)"
    using assms endpoint_missing_payload [OF m c] by (cases "truthy (get_json request)") auto
  obtain profile where p: "map_responses (get_json request) = Inr profile"
    using assms endpoint_mapper_raises [OF m c t]
    by (cases "map_responses (get_json request)") auto
  have "call = call_of env profile"
    using assms
    unfolding endpoint_reaches_call [OF m c t p]
    by (auto simp: process_response_def split: sum.splits prod.splits)
  then show ?thesis
    using m c t p by blast
qed

lemma success_shape:
  assumes "generate_news_endpoint env request = ((body, 200, headers), events)"
  shows "\<exists>headline body_formatted profile.
     map_responses (get_json request) = Inr profile \<and>
     body = jsonify (JObj [(''headline'', headline), (''body'', JStr body_formatted),
              (''debug_info'', JObj [(''profile'', JObj profile)])])"
proof -
  have m: "request_method request \<noteq> ''OPTIONS''"
    using assms endpoint_preflight [of request env] by auto
  obtain create where c: "CLIENT env = Some create"
    using assms endpoint_no_client [OF m, of env] handle_not_200
    by (cases "CLIENT env") auto
  have t: "truthy (get_json request)"
    using assms endpoint_missing_payload [OF m c] by (cases "truthy (get_json request)") auto
  obtain profile where p: "map_responses (get_json request) = Inr profile"
    using assms endpoint_mapper_raises [OF m c t] handle_not_200
    by (cases "map_responses (get_json request)") auto
  show ?thesis
    using assms handle_not_200
    unfolding endpoint_reaches_call [OF m c t p]
    by (auto simp: process_response_def p format_body_with_hovers_of_def
        split: sum.splits prod.splits json.splits)
qed

lemma handle_shape:
  "\<exists>b s. handle e headers = (b, s, headers) \<and> s \<in> {429, 500, 502, 503} \<and>
     body_keys b = [''error'', ''message'']"
  by (cases e) (simp_all add: jsonify_def)

lemma process_response_shape:
  "(\<exists>e later. process_response env completion profile headers = (Inl e, later)) \<or>
   (\<exists>b later. process_response env completion profile headers = (Inr (b, 200, headers), later))"
  by (auto simp: process_response_def split: sum.splits prod.splits)

lemma handle_shape_holds: "response_shape_holds (handle e headers)"
  using handle_shape [of e headers] by (auto simp: response_shape_holds_def)

lemma endpoint_response_shape: "response_shape_holds (fst (generate_news_endpoint env request))"
proof (cases "request_method request = ''OPTIONS''")
  case True
  then show ?thesis
    by (simp add: endpoint_preflight response_shape_holds_def)
next
  case m: False
  show ?thesis
  proof (cases "CLIENT env")
    case None
    show ?thesis
      unfolding endpoint_no_client [OF m None] by (simp add: handle_shape_holds del: handle.simps)
  next
    case c: (Some create)
    show ?thesis
    proof (cases "truthy (get_json request)")
      case False
      then show ?thesis
        by (simp add: endpoint_missing_payload [OF m c] jsonify_def response_shape_holds_def)
    next
      case t: True
      show ?thesis
      proof (cases "map_responses (get_json request)")
        case (Inl e)
        show ?thesis
          unfolding endpoint_mapper_raises [OF m c t Inl] by (simp add: handle_shape_holds del: handle.simps)
      next
        case p: (Inr profile)
        show ?thesis
        proof (cases "create (call_of env profile)")
          case (Inl e)
          then show ?thesis
            unfolding endpoint_reaches_call [OF m c t p] by (simp add: handle_shape_holds del: handle.simps)
        next
          case (Inr completion)
          from process_response_shape [of env completion profile "[(''Access-Control-Allow-Origin'', ''*'')]"]
          show ?thesis
          proof (elim disjE exE)
            fix e later
            assume "process_response env completion profile
                [(''Access-Control-Allow-Origin'', ''*'')] = (Inl e, later)"
            then show ?thesis
              unfolding endpoint_reaches_call [OF m c t p] Inr by (simp add: handle_shape_holds del: handle.simps)
          next
            fix b later
            assume "process_response env completion profile
                [(''Access-Control-Allow-Origin'', ''*'')] =
                  (Inr (b, 200, [(''Access-Control-Allow-Origin'', ''*'')]), later)"
            then show ?thesis
              unfolding endpoint_reaches_call [OF m c t p] Inr by (simp add: response_shape_holds_def)
          qed
        qed
      qed
    qed
  qed
qed

lemma example_request_profile:
  "map_responses (get_json example_request) = Inr example_profile"
  by (simp add: example_request_def example_profile_def map_responses_survey label_of_def
      mappings_DEM1_def)

lemma example_request_reaches_call:
  "generate_news_endpoint (example_env create) example_request =
     (case create (call_of (example_env create) example_profile) of
        Inl e \<Rightarrow>
          (handle e [(''Access-Control-Allow-Origin'', ''*'')],
           [Invoked_map_responses, Invoked_create_prompt,
            Invoked_completions_create (call_of (example_env create) example_profile)])
      | Inr completion \<Rightarrow>
          (case process_response (example_env create) completion example_profile
                  [(''Access-Control-Allow-Origin'', ''*'')] of
             (Inl e, later) \<Rightarrow>
               (handle e [(''Access-Control-Allow-Origin'', ''*'')],
                [Invoked_map_responses, Invoked_create_prompt,
                 Invoked_completions_create (call_of (example_env create) example_profile)] @
                later)
           | (Inr response, later) \<Rightarrow>
               (response,
                [Invoked_map_responses, Invoked_create_prompt,
                 Invoked_completions_create (call_of (example_env create) example_profile)] @
                later)))"
proof (rule endpoint_reaches_call)
  show "request_method example_request \<noteq> ''OPTIONS''"
    by (simp add: example_request_def)
  show "CLIENT (example_env create) = Some create"
    by (simp add: example_env_def)
  show "truthy (get_json example_request)"
    by (simp add: example_request_def survey_def)
  show "map_responses (get_json example_request) = Inr example_profile"
    by (rule example_request_profile)
qed

lemma example_call_invoked:
  "Invoked_completions_create (call_of (example_env create) example_profile)
     \<in> set (snd (generate_news_endpoint (example_env create) example_request))"
  unfolding example_request_reaches_call
  by (simp split: sum.split prod.split)

lemma process_response_object:
  assumes "json_loads env content = Inr (JObj members)" and "body_text members = Some text_body"
  shows "process_response env (Some content # others) profile headers =
     (Inr (jsonify (JObj
             [(''headline'',
               (case map_of members ''headline'' of
                  None \<Rightarrow> JStr ''No Headline'' | Some headline \<Rightarrow> headline)),
              (''body'', JStr (format_body_with_hovers text_body)),
              (''debug_info'', JObj [(''profile'', JObj profile)])]),
           200, headers),
      [Invoked_format_body_with_hovers])"
  using assms
  by (auto simp: process_response_def response_fields_def dict_get_def body_text_def
      format_body_with_hovers_of_def split: option.splits json.splits)


section \<open>The claims\<close>

subsection \<open>C1: the grammar of a citation marker\<close>

text \<open>
  C1, as the code has it. Scanning the body from left to right, at each position where the
  text reads \<open>[label:tooltip]\<close>, the label being one or more characters other than \<open>:\<close>
  (a \<open>]\<close> or a \<open>[\<close> is allowed in a label) and the tooltip one or more characters other
  than \<open>]\<close>, the formatter emits
  \<^verbatim>\<open><span class="source-label">label<span class="source-tooltip">tooltip</span></span>\<close>
  and goes on after the closing \<open>]\<close>; at every other position it copies one character
  unchanged. The empty body stays empty.
\<close>

theorem format_body_with_hovers_grammar:
  \<open>format_body_with_hovers [] = [] \<and>
   (well_formed label tooltip \<longrightarrow>
      format_body_with_hovers (''['' @ label @ '':'' @ tooltip @ '']'' @ rest) =
        ''<span class="source-label">'' @ label @
        ''<span class="source-tooltip">'' @ tooltip @ ''</span></span>'' @
        format_body_with_hovers rest) \<and>
   ((\<forall>l t r. well_formed l t \<longrightarrow> c # cs \<noteq> ''['' @ l @ '':'' @ t @ '']'' @ r) \<longrightarrow>
      format_body_with_hovers (c # cs) = c # format_body_with_hovers cs)\<close>
proof (intro conjI impI)
  show "format_body_with_hovers [] = []"
    by (simp add: format_body_with_hovers_def)
next
  assume wf: "well_formed label tooltip"
  have m: "HOVER_PATTERN (marker label tooltip @ rest) = Some (label, tooltip, rest)"
    using wf HOVER_PATTERN_Some_iff by blast
  obtain b bs where cons: "marker label tooltip @ rest = b # bs"
    by (simp add: marker_def)
  have "HOVER_PATTERN_sub (b # bs) = replacer label tooltip @ HOVER_PATTERN_sub rest"
    using m cons by simp
  then have "format_body_with_hovers (marker label tooltip @ rest) =
      replacer label tooltip @ format_body_with_hovers rest"
    by (simp only: format_body_with_hovers_def cons)
  then show \<open>format_body_with_hovers (''['' @ label @ '':'' @ tooltip @ '']'' @ rest) =
      ''<span class="source-label">'' @ label @
      ''<span class="source-tooltip">'' @ tooltip @ ''</span></span>'' @
      format_body_with_hovers rest\<close>
    by (simp add: marker_def replacer_def)
next
  assume no: "\<forall>l t r. well_formed l t \<longrightarrow> c # cs \<noteq> ''['' @ l @ '':'' @ t @ '']'' @ r"
  have "HOVER_PATTERN (c # cs) = None"
  proof (cases "HOVER_PATTERN (c # cs)")
    case None
    then show ?thesis .
  next
    case (Some m)
    obtain l t r where "m = (l, t, r)"
      by (cases m) auto
    then have "well_formed l t \<and> c # cs = marker l t @ r"
      using Some HOVER_PATTERN_Some_iff by blast
    then have "well_formed l t \<and> c # cs = ''['' @ l @ '':'' @ t @ '']'' @ r"
      by (simp add: marker_def)
    then show ?thesis
      using no by blast
  qed
  then show "format_body_with_hovers (c # cs) = c # format_body_with_hovers cs"
    by (simp add: format_body_with_hovers_def)
qed

text \<open>
  The theorem at a marker followed by a full stop; at \<open>[x] [a:b]\<close>, which is one marker
  with the label \<open>x] [a\<close>; and at a bracket that opens no marker.
\<close>

theorem format_body_with_hovers_grammar_witness:
  \<open>well_formed ''Source'' '' Pew'' \<and>
   format_body_with_hovers ''[Source: Pew].'' =
     ''<span class="source-label">Source<span class="source-tooltip"> Pew</span></span>.'' \<and>
   well_formed ''x] [a'' ''b'' \<and>
   format_body_with_hovers ''[x] [a:b]'' =
     ''<span class="source-label">x] [a<span class="source-tooltip">b</span></span>'' \<and>
   format_body_with_hovers ''[a]'' = ''[a]''\<close>
proof -
  have wf1: "well_formed ''Source'' '' Pew''"
    by (simp add: well_formed_def)
  have wf2: "well_formed ''x] [a'' ''b''"
    by (simp add: well_formed_def)
  have none: "HOVER_PATTERN ''[a]'' = None"
    by (simp add: HOVER_PATTERN_unfold)
  have no: "\<forall>l t r. well_formed l t \<longrightarrow> ''[a]'' \<noteq> ''['' @ l @ '':'' @ t @ '']'' @ r"
  proof (intro allI impI notI)
    fix l t r
    assume "well_formed l t" and "''[a]'' = ''['' @ l @ '':'' @ t @ '']'' @ r"
    then have "HOVER_PATTERN ''[a]'' = Some (l, t, r)"
      using HOVER_PATTERN_Some_iff [of "''[a]''" l t r] by (simp add: marker_def)
    then show False
      using none by simp
  qed
  have tail: "format_body_with_hovers ''.'' = ''.''" "format_body_with_hovers ''a]'' = ''a]''"
    by (simp_all add: format_body_with_hovers_def HOVER_PATTERN_unfold)
  have one: \<open>format_body_with_hovers ''[Source: Pew].'' =
     ''<span class="source-label">Source<span class="source-tooltip"> Pew</span></span>.''\<close>
    using wf1 format_body_with_hovers_grammar [of "''Source''" "'' Pew''" "''.''"] tail(1)
    by simp
  have two: \<open>format_body_with_hovers ''[x] [a:b]'' =
     ''<span class="source-label">x] [a<span class="source-tooltip">b</span></span>''\<close>
    using wf2 format_body_with_hovers_grammar [of "''x] [a''" "''b''" "[]"]
    by simp
  have three: "format_body_with_hovers ''[a]'' = ''[a]''"
    using no format_body_with_hovers_grammar [of _ _ _ "CHR ''[''" "''a]''"] tail(2)
    by simp
  show ?thesis
    using wf1 wf2 one two three by blast
qed

text \<open>
  C1 as it was stated says that a bracketed substring whose label contains \<open>]\<close> is left
  untouched. In \<open>[a]b:c]\<close> the pattern of the specification finds no marker at any
  position. The first group of \<open>HOVER_PATTERN\<close> is \<open>[^:]+\<close>, which accepts \<open>]\<close>: the label
  is \<open>a]b\<close>, and the substring is rewritten.
\<close>

theorem label_with_bracket_is_rewritten:
  \<open>spec_marker_free ''[a]b:c]'' \<and>
   format_body_with_hovers ''[a]b:c]'' =
     ''<span class="source-label">a]b<span class="source-tooltip">c</span></span>'' \<and>
   format_body_with_hovers ''[a]b:c]'' \<noteq> ''[a]b:c]''\<close>
proof -
  have "spec_marker_free ''[a]b:c]''"
    by (simp add: spec_marker_free_def SPEC_PATTERN_def lit_def plus_greedy_def upt_conv_Cons)
  then show ?thesis
    by (simp add: format_body_with_hovers_def HOVER_PATTERN_unfold replacer_def)
qed


subsection \<open>C2: the body of an error response\<close>

text \<open>
  C2, at the request the code fails it on. A \<open>POST\<close> request with no payload, to a handler
  whose client is configured, gets status 400 and a body whose only key is \<open>error\<close>: the
  \<open>return\<close> of this path builds the object without a \<open>message\<close>, which each \<open>except\<close>
  clause puts beside \<open>error\<close>. (By \<open>endpoint_response_shape\<close> this is the only response
  that falls short of the claim: the statuses are 204, 200, 400, 429, 500, 502 and 503, and
  every response with one of the last four has both keys.)
\<close>

theorem bad_request_has_no_message:
  "fst (snd (fst (generate_news_endpoint (example_env rate_limited)
                    \<lparr>request_method = ''POST'', get_json = JNull\<rparr>))) = 400 \<and>
   body_keys (fst (fst (generate_news_endpoint (example_env rate_limited)
                          \<lparr>request_method = ''POST'', get_json = JNull\<rparr>))) = [''error'']"
proof -
  have "generate_news_endpoint (example_env rate_limited) \<lparr>request_method = ''POST'', get_json = JNull\<rparr> =
     ((jsonify (JObj [(''error'', JStr ''Missing JSON payload in request.'')]), 400,
       [(''Access-Control-Allow-Origin'', ''*'')]),
      [])"
    by (rule endpoint_missing_payload [where create = rate_limited])
      (simp_all add: example_env_def)
  then show ?thesis
    by (simp add: jsonify_def)
qed


subsection \<open>C3: the example profile\<close>

text \<open>
  C3, as the code has it. For the survey response \<open>{"DEM1": "1", "DEM3": "6", "VOT2": "2"}\<close>
  the mapper returns Gender \<open>Female\<close>, 2024 Vote \<open>The Republican candidate (Donald Trump)\<close>,
  the neutral Paris Agreement label, \<open>Not specified\<close> for Age, Income, Race/Ethnicity,
  Political Stance and Party Affiliation, and for Education the label of the table, which is
  spelled with U+2019 RIGHT SINGLE QUOTATION MARK between \<open>Bachelor\<close> and \<open>s\<close>.
\<close>

theorem map_responses_example:
  "map_responses (survey [(''DEM1'', ''1''), (''DEM3'', ''6''), (''VOT2'', ''2'')]) =
     Inr [(''Gender'', JStr ''Female''),
          (''Age'', JStr ''Not specified''),
          (''Education'', JStr (''Bachelor'' @ rsquo @ ''s degree'')),
          (''Income'', JStr ''Not specified''),
          (''Race/Ethnicity'', JStr ''Not specified''),
          (''Political Stance'', JStr ''Not specified''),
          (''Party Affiliation'', JStr ''Not specified''),
          (''2024 Vote'', JStr ''The Republican candidate (Donald Trump)''),
          (''Paris Agreement Stance'', JStr ''Neutral on U.S. withdrawal from Paris Agreement'')]"
  by (simp add: map_responses_survey label_of_def mappings_DEM1_def mappings_DEM3_def
      mappings_VOT2_def)

text \<open>
  C3 as it was stated spells the Education label with U+0027 APOSTROPHE. That string is not
  the one the mapper returns.
\<close>

theorem map_responses_example_apostrophe:
  "map_responses (survey [(''DEM1'', ''1''), (''DEM3'', ''6''), (''VOT2'', ''2'')]) \<noteq>
     Inr [(''Gender'', JStr ''Female''),
          (''Age'', JStr ''Not specified''),
          (''Education'', JStr ''Bachelor's degree''),
          (''Income'', JStr ''Not specified''),
          (''Race/Ethnicity'', JStr ''Not specified''),
          (''Political Stance'', JStr ''Not specified''),
          (''Party Affiliation'', JStr ''Not specified''),
          (''2024 Vote'', JStr ''The Republican candidate (Donald Trump)''),
          (''Paris Agreement Stance'', JStr ''Neutral on U.S. withdrawal from Paris Agreement'')]"
  by (simp add: map_responses_survey label_of_def mappings_DEM1_def mappings_DEM3_def
      mappings_VOT2_def rsquo_def)


subsection \<open>C4: defaults\<close>

text \<open>
  C4, as the code has it. For every input mapping in which no code of the eight fields that
  have a lookup table is a list or an object (so for every mapping whose values are
  strings), the mapper returns a profile and raises nothing. For each of the eight
  attributes that have a table, when the code of the attribute is absent from the mapping
  or is not found in the table, the attribute is \<open>Not specified\<close>, and for the
  climate-policy attribute it is \<open>Neutral on U.S. withdrawal from Paris Agreement\<close>, a
  different string. Age has no lookup table: it is \<open>Not specified\<close> when its code is absent,
  and otherwise it is the code itself.
\<close>

theorem map_responses_defaults:
  assumes "codes_hashable items"
  shows "\<exists>profile.
     map_responses (JObj items) = Inr profile \<and>
     (not_in_table mappings_DEM1 (map_of items ''DEM1'') \<longrightarrow>
        map_of profile ''Gender'' = Some (JStr ''Not specified'')) \<and>
     map_of profile ''Age'' =
       Some (case map_of items ''DEM2'' of None \<Rightarrow> JStr ''Not specified'' | Some code \<Rightarrow> code) \<and>
     (not_in_table mappings_DEM3 (map_of items ''DEM3'') \<longrightarrow>
        map_of profile ''Education'' = Some (JStr ''Not specified'')) \<and>
     (not_in_table mappings_DEM4 (map_of items ''DEM4'') \<longrightarrow>
        map_of profile ''Income'' = Some (JStr ''Not specified'')) \<and>
     (not_in_table mappings_DEM5 (map_of items ''DEM5'') \<longrightarrow>
        map_of profile ''Race/Ethnicity'' = Some (JStr ''Not specified'')) \<and>
     (not_in_table mappings_DEM7 (map_of items ''DEM7'') \<longrightarrow>
        map_of profile ''Political Stance'' = Some (JStr ''Not specified'')) \<and>
     (not_in_table mappings_DEM8 (map_of items ''DEM8'') \<longrightarrow>
        map_of profile ''Party Affiliation'' = Some (JStr ''Not specified'')) \<and>
     (not_in_table mappings_VOT2 (map_of items ''VOT2'') \<longrightarrow>
        map_of profile ''2024 Vote'' = Some (JStr ''Not specified'')) \<and>
     (not_in_table mappings_CCP1_1 (map_of items ''CCP1_1'') \<longrightarrow>
        map_of profile ''Paris Agreement Stance'' =
          Some (JStr ''Neutral on U.S. withdrawal from Paris Agreement'')) \<and>
     ''Neutral on U.S. withdrawal from Paris Agreement'' \<noteq> ''Not specified''"
  by (simp add: map_responses_dict [OF assms] mapped_label_default)

text \<open>
  The theorem at a mapping with a gender code that is no key of its table, an age code and a
  number as education code.
\<close>

theorem map_responses_defaults_witness:
  "codes_hashable [(''DEM1'', JStr ''9''), (''DEM2'', JStr ''abc''), (''DEM3'', JInt 6)] \<and>
   map_responses (JObj [(''DEM1'', JStr ''9''), (''DEM2'', JStr ''abc''), (''DEM3'', JInt 6)]) =
     Inr [(''Gender'', JStr ''Not specified''),
          (''Age'', JStr ''abc''),
          (''Education'', JStr ''Not specified''),
          (''Income'', JStr ''Not specified''),
          (''Race/Ethnicity'', JStr ''Not specified''),
          (''Political Stance'', JStr ''Not specified''),
          (''Party Affiliation'', JStr ''Not specified''),
          (''2024 Vote'', JStr ''Not specified''),
          (''Paris Agreement Stance'', JStr ''Neutral on U.S. withdrawal from Paris Agreement'')]"
proof -
  let ?items = "[(''DEM1'', JStr ''9''), (''DEM2'', JStr ''abc''), (''DEM3'', JInt 6)]"
  have h: "codes_hashable ?items"
    by (simp add: codes_hashable_def table_fields_def)
  have gender: "not_in_table mappings_DEM1 (map_of ?items ''DEM1'')"
    by (simp add: mappings_DEM1_def)
  have others:
    "not_in_table mappings_DEM3 (map_of ?items ''DEM3'')"
    "not_in_table mappings_DEM4 (map_of ?items ''DEM4'')"
    "not_in_table mappings_DEM5 (map_of ?items ''DEM5'')"
    "not_in_table mappings_DEM7 (map_of ?items ''DEM7'')"
    "not_in_table mappings_DEM8 (map_of ?items ''DEM8'')"
    "not_in_table mappings_VOT2 (map_of ?items ''VOT2'')"
    "not_in_table mappings_CCP1_1 (map_of ?items ''CCP1_1'')"
    by simp_all
  have age: "(case map_of ?items ''DEM2'' of None \<Rightarrow> JStr ''Not specified'' | Some code \<Rightarrow> code) =
      JStr ''abc''"
    by simp
  from map_responses_defaults [OF h] gender others obtain profile where
    p: "map_responses (JObj ?items) = Inr profile" and
    v: "map_of profile ''Gender'' = Some (JStr ''Not specified'')"
       "map_of profile ''Age'' = Some (JStr ''abc'')"
       "map_of profile ''Education'' = Some (JStr ''Not specified'')"
       "map_of profile ''Income'' = Some (JStr ''Not specified'')"
       "map_of profile ''Race/Ethnicity'' = Some (JStr ''Not specified'')"
       "map_of profile ''Political Stance'' = Some (JStr ''Not specified'')"
       "map_of profile ''Party Affiliation'' = Some (JStr ''Not specified'')"
       "map_of profile ''2024 Vote'' = Some (JStr ''Not specified'')"
       "map_of profile ''Paris Agreement Stance'' =
          Some (JStr ''Neutral on U.S. withdrawal from Paris Agreement'')"
    unfolding age by blast
  have k: "map fst profile = profile_keys"
    using p by (rule map_responses_keys)
  obtain a b c d e f g h i where
    shape: "profile = [(''Gender'', a), (''Age'', b), (''Education'', c), (''Income'', d),
      (''Race/Ethnicity'', e), (''Political Stance'', f), (''Party Affiliation'', g),
      (''2024 Vote'', h), (''Paris Agreement Stance'', i)]"
    using k unfolding profile_keys_def by (auto simp: map_eq_Cons_conv)
  show ?thesis
    using h p v unfolding shape by simp
qed

text \<open>
  C4 as it was stated speaks of every input mapping and of all nine attributes. On the
  mapping \<open>{"DEM1": ["1"]}\<close> the lookup in the table raises \<open>TypeError\<close>, a list being
  unhashable; and on \<open>{"DEM2": "abc"}\<close> the code of Age, which no table has, is not replaced
  by \<open>Not specified\<close> but passed through.
\<close>

theorem map_responses_list_code_and_age_code:
  "isl (map_responses (JObj [(''DEM1'', JArr [JStr ''1''])])) \<and>
   map_responses (survey [(''DEM2'', ''abc'')]) =
     Inr [(''Gender'', JStr ''Not specified''),
          (''Age'', JStr ''abc''),
          (''Education'', JStr ''Not specified''),
          (''Income'', JStr ''Not specified''),
          (''Race/Ethnicity'', JStr ''Not specified''),
          (''Political Stance'', JStr ''Not specified''),
          (''Party Affiliation'', JStr ''Not specified''),
          (''2024 Vote'', JStr ''Not specified''),
          (''Paris Agreement Stance'', JStr ''Neutral on U.S. withdrawal from Paris Agreement'')] \<and>
   JStr ''abc'' \<noteq> JStr ''Not specified''"
  by (simp add: map_responses_survey label_of_def)
    (simp add: map_responses_def mapped_def dict_get_def table_get_def)


subsection \<open>C5: text without markers, text outside markers\<close>

text \<open>
  C5, as the code has it. A body that contains no marker that the pattern accepts (no
  substring \<open>[label:tooltip]\<close> with a label of one or more characters other than \<open>:\<close>, in
  which \<open>]\<close> is allowed, and a tooltip of one or more characters other than \<open>]\<close>) is
  returned unchanged. On any body, the split into the matched markers and the characters
  outside them, read back as source text, is the body itself; the output is the same
  sequence with each marker replaced by its markup fragment, in the same order, and each
  character outside a marker copied as it is; and every matched marker is well formed in
  this sense.
\<close>

theorem format_body_with_hovers_outside_text:
  "((\<forall>pre label tooltip post.
       s = pre @ marker label tooltip @ post \<longrightarrow> \<not> well_formed label tooltip) \<longrightarrow>
      format_body_with_hovers s = s) \<and>
   concat (map source_text (split_markers s)) = s \<and>
   format_body_with_hovers s = concat (map rewritten (split_markers s)) \<and>
   list_all is_well_formed (split_markers s)"
proof (intro conjI impI)
  assume "\<forall>pre label tooltip post.
      s = pre @ marker label tooltip @ post \<longrightarrow> \<not> well_formed label tooltip"
  then have "marker_free s"
    by (simp only: marker_free_iff)
  then show "format_body_with_hovers s = s"
    by (simp add: format_body_with_hovers_def marker_free_sub)
next
  show "concat (map source_text (split_markers s)) = s"
    by (rule source_split)
next
  show "format_body_with_hovers s = concat (map rewritten (split_markers s))"
    by (simp add: format_body_with_hovers_def sub_split)
next
  show "list_all is_well_formed (split_markers s)"
    by (rule split_well_formed)
qed

text \<open>The theorem at a body with four brackets, none of which opens a marker.\<close>

theorem format_body_with_hovers_outside_text_witness:
  "marker_free ''[x] [a:] [:b] [c'' \<and>
   format_body_with_hovers ''[x] [a:] [:b] [c'' = ''[x] [a:] [:b] [c''"
proof -
  have mf: "marker_free ''[x] [a:] [:b] [c''"
    by (simp add: marker_free_def HOVER_PATTERN_unfold upt_conv_Cons)
  then have "\<forall>pre label tooltip post.
      ''[x] [a:] [:b] [c'' = pre @ marker label tooltip @ post \<longrightarrow> \<not> well_formed label tooltip"
    by (simp only: marker_free_iff)
  then show ?thesis
    using mf format_body_with_hovers_outside_text [of "''[x] [a:] [:b] [c''"]
    by blast
qed


text \<open>
  C5 as it was stated counts the well-formed markers by the grammar of the specification,
  in which a label has no \<open>]\<close>. The body \<open>[note] see: x]\<close> has no such marker at any
  position, and it is not returned unchanged: the pattern of the code takes \<open>note] see\<close> as
  the label.
\<close>

theorem unmatched_bracket_text_is_rewritten:
  \<open>spec_marker_free ''[note] see: x]'' \<and>
   format_body_with_hovers ''[note] see: x]'' =
     ''<span class="source-label">note] see<span class="source-tooltip"> x</span></span>'' \<and>
   format_body_with_hovers ''[note] see: x]'' \<noteq> ''[note] see: x]''\<close>
proof -
  have "spec_marker_free ''[note] see: x]''"
    by (simp add: spec_marker_free_def SPEC_PATTERN_def lit_def plus_greedy_def upt_conv_Cons)
  then show ?thesis
    by (simp add: format_body_with_hovers_def HOVER_PATTERN_unfold replacer_def)
qed


subsection \<open>C6: failures of the text-generation service\<close>

text \<open>
  C6. Whenever the handler has made the outbound call and the call raises, the response is:
  for a rate-limit rejection, status 429; for a connection failure, status 503; for another
  error of the API, status 502. In each case the body is an object with the keys \<open>error\<close>
  and \<open>message\<close>, the message being the text of the exception, and the headers carry
  \<open>Access-Control-Allow-Origin: *\<close>.
\<close>

theorem upstream_failures:
  assumes "CLIENT env = Some create"
    and "Invoked_completions_create call \<in> set (snd (generate_news_endpoint env request))"
  shows "(create call = Inl (RateLimitError e) \<longrightarrow>
            fst (generate_news_endpoint env request) =
              (jsonify (JObj [(''error'', JStr ''OpenAI API rate limit exceeded.''),
                              (''message'', JStr e)]),
               429, [(''Access-Control-Allow-Origin'', ''*'')])) \<and>
         (create call = Inl (APIConnectionError e) \<longrightarrow>
            fst (generate_news_endpoint env request) =
              (jsonify (JObj [(''error'', JStr ''Could not connect to OpenAI API.''),
                              (''message'', JStr e)]),
               503, [(''Access-Control-Allow-Origin'', ''*'')])) \<and>
         (create call = Inl (APIError e) \<longrightarrow>
            fst (generate_news_endpoint env request) =
              (jsonify (JObj [(''error'', JStr ''OpenAI API returned an error.''),
                              (''message'', JStr e)]),
               502, [(''Access-Control-Allow-Origin'', ''*'')]))"
proof -
  from call_invoked [OF assms(2)] assms(1) obtain profile where
    m: "request_method request \<noteq> ''OPTIONS''" and t: "truthy (get_json request)" and
    p: "map_responses (get_json request) = Inr profile" and call: "call = call_of env profile"
    by auto
  show ?thesis
    unfolding endpoint_reaches_call [OF m assms(1) t p] call
    by simp
qed

text \<open>The theorem at the example request, with a client for each of the three failures.\<close>

theorem upstream_failures_witness:
  "fst (generate_news_endpoint (example_env rate_limited) example_request) =
     (jsonify (JObj [(''error'', JStr ''OpenAI API rate limit exceeded.''),
                     (''message'', JStr ''Error code: 429'')]),
      429, [(''Access-Control-Allow-Origin'', ''*'')]) \<and>
   fst (generate_news_endpoint (example_env unreachable) example_request) =
     (jsonify (JObj [(''error'', JStr ''Could not connect to OpenAI API.''),
                     (''message'', JStr ''Connection error.'')]),
      503, [(''Access-Control-Allow-Origin'', ''*'')]) \<and>
   fst (generate_news_endpoint (example_env rejecting) example_request) =
     (jsonify (JObj [(''error'', JStr ''OpenAI API returned an error.''),
                     (''message'', JStr ''Error code: 500'')]),
      502, [(''Access-Control-Allow-Origin'', ''*'')])"
proof -
  have env: "CLIENT (example_env create) = Some create" for create
    by (simp add: example_env_def)
  have "rate_limited (call_of (example_env rate_limited) example_profile) =
      Inl (RateLimitError ''Error code: 429'')"
    by (simp add: rate_limited_def)
  moreover have "unreachable (call_of (example_env unreachable) example_profile) =
      Inl (APIConnectionError ''Connection error.'')"
    by (simp add: unreachable_def)
  moreover have "rejecting (call_of (example_env rejecting) example_profile) =
      Inl (APIError ''Error code: 500'')"
    by (simp add: rejecting_def)
  ultimately show ?thesis
    using upstream_failures [OF env example_call_invoked, of rate_limited "''Error code: 429''"]
      upstream_failures [OF env example_call_invoked, of unreachable "''Connection error.''"]
      upstream_failures [OF env example_call_invoked, of rejecting "''Error code: 500''"]
    by blast
qed


subsection \<open>C7: a request without a payload\<close>

text \<open>
  C7. For every \<open>POST\<close> request whose body is absent or does not parse as JSON, so that
  \<open>get_json\<close> returns \<open>None\<close>, and a configured client, the handler answers with status 400
  and an object with the key \<open>error\<close>, and it invokes nothing: no call to the text-generation
  service is made.
\<close>

theorem missing_payload_is_bad_request:
  assumes "request_method request = ''POST''" and "CLIENT env = Some create"
    and "get_json request = JNull"
  shows "generate_news_endpoint env request =
     ((jsonify (JObj [(''error'', JStr ''Missing JSON payload in request.'')]), 400,
       [(''Access-Control-Allow-Origin'', ''*'')]),
      [])"
  using assms by (intro endpoint_missing_payload [where create = create]) simp_all

text \<open>The theorem at a \<open>POST\<close> request without a payload.\<close>

theorem missing_payload_is_bad_request_witness:
  "request_method \<lparr>request_method = ''POST'', get_json = JNull\<rparr> = ''POST'' \<and>
   CLIENT (example_env rate_limited) = Some rate_limited \<and>
   generate_news_endpoint (example_env rate_limited) \<lparr>request_method = ''POST'', get_json = JNull\<rparr> =
     ((jsonify (JObj [(''error'', JStr ''Missing JSON payload in request.'')]), 400,
       [(''Access-Control-Allow-Origin'', ''*'')]),
      [])"
proof -
  have m: "request_method \<lparr>request_method = ''POST'', get_json = JNull\<rparr> = ''POST''"
    by simp
  have c: "CLIENT (example_env rate_limited) = Some rate_limited"
    by (simp add: example_env_def)
  have j: "get_json \<lparr>request_method = ''POST'', get_json = JNull\<rparr> = JNull"
    by simp
  show ?thesis
    using m c missing_payload_is_bad_request [OF m c j]
    by simp
qed


subsection \<open>C8: the preflight request\<close>

text \<open>
  C8. For every request whose method is \<open>OPTIONS\<close>, whatever its payload and whatever the
  environment, the handler answers with status 204, an empty body and headers that allow
  any origin, the method \<open>POST\<close> and the request header \<open>Content-Type\<close>, and it invokes none
  of the mapper, the prompt builder, the client and the formatter.
\<close>

theorem preflight_response:
  assumes "request_method request = ''OPTIONS''"
  shows "generate_news_endpoint env request =
     ((Text [], 204,
       [(''Access-Control-Allow-Origin'', ''*''),
        (''Access-Control-Allow-Methods'', ''POST''),
        (''Access-Control-Allow-Headers'', ''Content-Type''),
        (''Access-Control-Max-Age'', ''3600'')]),
      [])"
  using assms by (rule endpoint_preflight)

text \<open>The theorem at an \<open>OPTIONS\<close> request that carries a survey response.\<close>

theorem preflight_response_witness:
  "request_method \<lparr>request_method = ''OPTIONS'', get_json = survey [(''DEM1'', ''1'')]\<rparr> = ''OPTIONS'' \<and>
   generate_news_endpoint (example_env (answering ''{}''))
       \<lparr>request_method = ''OPTIONS'', get_json = survey [(''DEM1'', ''1'')]\<rparr> =
     ((Text [], 204,
       [(''Access-Control-Allow-Origin'', ''*''),
        (''Access-Control-Allow-Methods'', ''POST''),
        (''Access-Control-Allow-Headers'', ''Content-Type''),
        (''Access-Control-Max-Age'', ''3600'')]),
      [])"
proof -
  have m: "request_method \<lparr>request_method = ''OPTIONS'', get_json = survey [(''DEM1'', ''1'')]\<rparr> = ''OPTIONS''"
    by simp
  show ?thesis
    using m preflight_response [OF m, of "example_env (answering ''{}'')"]
    by simp
qed


subsection \<open>C9: a completion without headline or body\<close>

text \<open>
  C9, as the code has it. Whenever the handler has made the outbound call and the content
  of the first choice parses as a JSON object whose \<open>body\<close>, when it has one, is a string,
  the handler answers with status 200: the headline is the one of the object, or
  \<open>No Headline\<close> when the object has none, and the body is the formatted body of the
  object, or the formatted \<open>No content generated.\<close> when the object has none.
\<close>

theorem missing_fields_get_placeholders:
  assumes "CLIENT env = Some create"
    and "Invoked_completions_create call \<in> set (snd (generate_news_endpoint env request))"
    and "create call = Inr (Some content # others)"
    and "json_loads env content = Inr (JObj members)"
    and "body_text members = Some text_body"
  shows "(\<exists>profile.
            fst (generate_news_endpoint env request) =
              (jsonify (JObj
                 [(''headline'',
                   (case map_of members ''headline'' of
                      None \<Rightarrow> JStr ''No Headline'' | Some headline \<Rightarrow> headline)),
                  (''body'', JStr (format_body_with_hovers text_body)),
                  (''debug_info'', JObj [(''profile'', JObj profile)])]),
               200, [(''Access-Control-Allow-Origin'', ''*'')])) \<and>
         (map_of members ''body'' = None \<longrightarrow> text_body = ''No content generated.'')"
proof -
  from call_invoked [OF assms(2)] assms(1) obtain profile where
    m: "request_method request \<noteq> ''OPTIONS''" and t: "truthy (get_json request)" and
    p: "map_responses (get_json request) = Inr profile" and call: "call = call_of env profile"
    by auto
  have c: "create (call_of env profile) = Inr (Some content # others)"
    using assms(3) call by simp
  have "fst (generate_news_endpoint env request) =
      (jsonify (JObj
         [(''headline'',
           (case map_of members ''headline'' of
              None \<Rightarrow> JStr ''No Headline'' | Some headline \<Rightarrow> headline)),
          (''body'', JStr (format_body_with_hovers text_body)),
          (''debug_info'', JObj [(''profile'', JObj profile)])]),
       200, [(''Access-Control-Allow-Origin'', ''*'')])"
    unfolding endpoint_reaches_call [OF m assms(1) t p] c
    by (simp add: process_response_object [OF assms(4) assms(5)])
  moreover have "map_of members ''body'' = None \<longrightarrow> text_body = ''No content generated.''"
    using assms(5) by (auto simp: body_text_def)
  ultimately show ?thesis
    by blast
qed

text \<open>The theorem at a completion whose content is the empty object.\<close>

theorem missing_fields_get_placeholders_witness:
  "\<exists>profile.
     fst (generate_news_endpoint (example_env (answering ''{}'')) example_request) =
       (jsonify (JObj
          [(''headline'', JStr ''No Headline''),
           (''body'', JStr ''No content generated.''),
           (''debug_info'', JObj [(''profile'', JObj profile)])]),
        200, [(''Access-Control-Allow-Origin'', ''*'')])"
proof -
  let ?env = "example_env (answering ''{}'')"
  have c: "CLIENT ?env = Some (answering ''{}'')"
    by (simp add: example_env_def)
  have a: "answering ''{}'' (call_of ?env example_profile) = Inr (Some ''{}'' # [])"
    by (simp add: answering_def)
  have l: "json_loads ?env ''{}'' = Inr (JObj [])"
    by (simp add: example_env_def example_loads_def)
  have b: "body_text [] = Some ''No content generated.''"
    by (simp add: body_text_def)
  have f: "format_body_with_hovers ''No content generated.'' = ''No content generated.''"
    by (simp add: format_body_with_hovers_def HOVER_PATTERN_unfold)
  show ?thesis
    using missing_fields_get_placeholders [OF c example_call_invoked a l b] f
    by simp
qed

text \<open>
  C9 as it was stated asks only that the content parses and lacks one of the two keys. The
  content \<open>{"body": ["One.", "Two."]}\<close> parses and has no headline; its body is a list,
  which \<open>sub\<close> refuses, and the last \<open>except\<close> clause answers with status 500.
\<close>

theorem non_string_body_is_internal_error:
  \<open>json_loads (example_env (answering ''{"body": ["One.", "Two."]}''))
       ''{"body": ["One.", "Two."]}'' =
     Inr (JObj [(''body'', JArr [JStr ''One.'', JStr ''Two.''])]) \<and>
   map_of [(''body'', JArr [JStr ''One.'', JStr ''Two.''])] ''headline'' = None \<and>
   fst (snd (fst (generate_news_endpoint
                    (example_env (answering ''{"body": ["One.", "Two."]}''))
                    example_request))) = 500 \<and>
   body_keys (fst (fst (generate_news_endpoint
                          (example_env (answering ''{"body": ["One.", "Two."]}''))
                          example_request))) = [''error'', ''message'']\<close>
  unfolding example_request_reaches_call
  by (simp add: answering_def process_response_def response_fields_def example_env_def
      example_loads_def dict_get_def format_body_with_hovers_of_def jsonify_def)


subsection \<open>C10: the keys of a profile\<close>

text \<open>
  C10. For every survey response the mapper returns a profile whose keys are the nine of
  \<open>profile_keys\<close>, in this order, each bound to a string; and in every response with status
  200, whatever the payload, \<open>debug_info.profile\<close> is an object with exactly these nine
  keys. The nine keys are distinct.
\<close>

theorem profile_has_nine_keys:
  "(\<exists>profile.
      map_responses (survey answers) = Inr profile \<and>
      map fst profile = profile_keys \<and> list_all is_str (map snd profile)) \<and>
   (generate_news_endpoint env request = ((body, 200, headers), events) \<longrightarrow>
      (\<exists>headline body_formatted profile.
         body = jsonify (JObj [(''headline'', headline), (''body'', JStr body_formatted),
                  (''debug_info'', JObj [(''profile'', JObj profile)])]) \<and>
         map fst profile = profile_keys)) \<and>
   distinct profile_keys \<and> length profile_keys = 9"
proof (intro conjI impI)
  show "\<exists>profile.
      map_responses (survey answers) = Inr profile \<and>
      map fst profile = profile_keys \<and> list_all is_str (map snd profile)"
    by (simp add: map_responses_survey profile_keys_def split: option.split)
next
  assume "generate_news_endpoint env request = ((body, 200, headers), events)"
  from success_shape [OF this] obtain headline body_formatted profile where
    "map_responses (get_json request) = Inr profile" and
    "body = jsonify (JObj [(''headline'', headline), (''body'', JStr body_formatted),
              (''debug_info'', JObj [(''profile'', JObj profile)])])"
    by blast
  then show "\<exists>headline body_formatted profile.
      body = jsonify (JObj [(''headline'', headline), (''body'', JStr body_formatted),
               (''debug_info'', JObj [(''profile'', JObj profile)])]) \<and>
      map fst profile = profile_keys"
    using map_responses_keys by blast
next
  show "distinct profile_keys"
    by (simp add: profile_keys_def)
next
  show "length profile_keys = 9"
    by (simp add: profile_keys_def)
qed

text \<open>The theorem at the example request, answered by a completion with an empty object.\<close>

theorem profile_has_nine_keys_witness:
  "generate_news_endpoint (example_env (answering ''{}'')) example_request =
     ((jsonify (JObj
         [(''headline'', JStr ''No Headline''),
          (''body'', JStr ''No content generated.''),
          (''debug_info'', JObj [(''profile'', JObj example_profile)])]),
       200, [(''Access-Control-Allow-Origin'', ''*'')]),
      [Invoked_map_responses, Invoked_create_prompt,
       Invoked_completions_create (call_of (example_env (answering ''{}'')) example_profile),
       Invoked_format_body_with_hovers]) \<and>
   map fst example_profile = profile_keys"
proof -
  let ?env = "example_env (answering ''{}'')"
  have l: "json_loads ?env ''{}'' = Inr (JObj [])"
    by (simp add: example_env_def example_loads_def)
  have b: "body_text [] = Some ''No content generated.''"
    by (simp add: body_text_def)
  have f: "format_body_with_hovers ''No content generated.'' = ''No content generated.''"
    by (simp add: format_body_with_hovers_def HOVER_PATTERN_unfold)
  have run: "generate_news_endpoint ?env example_request =
     ((jsonify (JObj
         [(''headline'', JStr ''No Headline''),
          (''body'', JStr ''No content generated.''),
          (''debug_info'', JObj [(''profile'', JObj example_profile)])]),
       200, [(''Access-Control-Allow-Origin'', ''*'')]),
      [Invoked_map_responses, Invoked_create_prompt,
       Invoked_completions_create (call_of ?env example_profile),
       Invoked_format_body_with_hovers])"
    unfolding example_request_reaches_call
    by (simp add: answering_def process_response_object [OF l b] f)
  from profile_has_nine_keys [of "[(''DEM1'', ''1'')]" ?env example_request] run
  obtain profile where
    "JObj [(''profile'', JObj example_profile)] = JObj [(''profile'', JObj profile)]" and
    "map fst profile = profile_keys"
    by (auto simp: jsonify_def)
  then show ?thesis
    using run by simp
qed

end
